theory Spec2Isabelle
  imports Main
begin

section \<open>Data model of \<open>client_for_multi_server/main.py\<close>\<close>

text \<open>
  JSON documents as Python holds them after decoding. A number is kept as its literal;
  an object is the dict in insertion order (its keys are distinct).
\<close>

datatype json =
    JNull
  | JBool bool
  | JNum string
  | JStr string
  | JArr "json list"
  | JObj "(string \<times> json) list"

text \<open>
  The exceptions that the modelled code can meet. \<open>ClientError\<close> is a failure of the
  gateway call (\<open>bedrock_client.converse\<close>), \<open>ToolError\<close> a failure of the executor
  (\<open>mcp_client.call_tool\<close>, \<open>list_all_tools\<close>, entering the client), \<open>RerunException\<close>
  is what \<open>st.rerun()\<close> raises to stop the script run.
\<close>

datatype exn =
    JSONDecodeError
  | FrameError
  | KeyError string
  | TypeError
  | IndexError
  | AttributeError
  | ClientError string
  | ToolError string
  | RerunException

datatype 'a outcome = Returned 'a | Raised exn

text \<open>How one pass through the body of a \<open>while True\<close> loop ends: at the \<open>break\<close>, at the
  end of the body (the loop goes round again), or with an exception.\<close>

datatype 'a pass = Break 'a | Continue 'a | Fail exn

text \<open>
  A content block of a Converse message is a dict with one key: \<open>text\<close>, \<open>toolUse\<close>,
  \<open>toolResult\<close>, or another kind (image, document, reasoning content).
  A \<open>toolResult\<close> carries the id it answers and its text blocks.
\<close>

datatype content_block =
    Text string
  | ToolUse (toolUseId: string) (name: string) (input: json)
  | ToolResult string "string list"
  | OtherBlock

datatype role = User | Assistant

datatype message = Message (role: role) (content: "content_block list")

datatype request =
  Request (modelId: string) (messages: "message list") (system: string) (toolConfig: json)

datatype response = Response (stopReason: string) (output_message: message)

text \<open>
  The executor's answer: \<open>tool_result.content\<close> is a sequence of content objects, of
  which only a text content has the attribute \<open>.text\<close>.
\<close>

datatype mcp_content = TextContent string | ImageContent | EmbeddedResource

datatype call_tool_result = CallToolResult (result_content: "mcp_content list")

text \<open>What \<open>pd.DataFrame\<close> builds: the column labels and the rows, a missing cell being \<open>None\<close>.\<close>

datatype dataframe = DataFrame (columns: "string list") (rows: "json option list list")

text \<open>The three things \<open>format_sql_result\<close> can hand back to its caller.\<close>

datatype shaped = Frame dataframe | RawText string | NoneValue

text \<open>What the page shows, in the order it is shown (spinners, expanders and rules are left out).\<close>

datatype ui_event =
    ShowText string
  | ShowQuery json
  | ShowResult shaped
  | ShowSchema string
  | ShowWarning

text \<open>
  Everything a run does to the outside, in order: each gateway call with its request and
  answer, each executor call with its arguments and answer, the client's session, the page.
\<close>

datatype event =
    Converse request "exn + response"
  | CallTool string json "exn + call_tool_result"
  | EnterClient
  | ListTools
  | ExitClient
  | UI ui_event

text \<open>
  The outside world has a state \<open>'w\<close> of its own (the model behind the gateway, the database
  behind the executor), which every call reads and may change. \<open>trace\<close> is the log of the run.
\<close>

record 'w io =
  world :: 'w
  trace :: "event list"

type_synonym 'w bedrock_client = "'w \<Rightarrow> request \<Rightarrow> (exn + response) \<times> 'w"

record 'w mcp_client =
  call_tool :: "'w \<Rightarrow> string \<Rightarrow> json \<Rightarrow> (exn + call_tool_result) \<times> 'w"
  list_all_tools :: "'w \<Rightarrow> (exn + json) \<times> 'w"
  aenter :: "'w \<Rightarrow> (exn + unit) \<times> 'w"
  aexit :: "'w \<Rightarrow> 'w"

text \<open>The two library functions \<open>format_sql_result\<close> calls: \<open>json.loads\<close> and \<open>pd.DataFrame\<close>.\<close>

record libs =
  json_loads :: "string \<Rightarrow> exn + json"
  pd_DataFrame :: "json list \<Rightarrow> exn + dataframe"

text \<open>
  The fixed texts of the source, which are Korean prose: the system prompt of
  \<open>get_table_info\<close> (lines 15-32), the prefix of its first user message (line 37), and the
  two parts of the system prompt of \<open>main\<close> around the table information (lines 248-256).
\<close>

record texts =
  table_system_prompt :: string
  table_request_prefix :: string
  query_prompt_head :: string
  query_prompt_tail :: string

definition model_id :: string where
  "model_id = ''us.anthropic.claude-3-7-sonnet-20250219-v1:0''"

section \<open>Small steps shared by the two loops\<close>

definition log :: "event \<Rightarrow> 'w io \<Rightarrow> 'w io" where
  "log e s = s\<lparr>trace := trace s @ [e]\<rparr>"

text \<open>\<open>bedrock_client.converse(modelId=..., messages=message_list, system=..., toolConfig=...)\<close>\<close>

definition converse ::
  "'w bedrock_client \<Rightarrow> json \<Rightarrow> string \<Rightarrow> message list \<Rightarrow> 'w io \<Rightarrow> (exn + response) \<times> 'w io" where
  "converse bedrock_client tools system_prompt message_list s =
     (let req = Request model_id message_list system_prompt tools in
      case bedrock_client (world s) req of
        (r, w') \<Rightarrow> (r, \<lparr>world = w', trace = trace s @ [Converse req r]\<rparr>))"

text \<open>\<open>await mcp_client.call_tool(tool_name, tool_input)\<close>\<close>

definition invoke_tool ::
  "'w mcp_client \<Rightarrow> string \<Rightarrow> json \<Rightarrow> 'w io \<Rightarrow> (exn + call_tool_result) \<times> 'w io" where
  "invoke_tool mcp tool_name tool_input s =
     (case call_tool mcp (world s) tool_name tool_input of
        (r, w') \<Rightarrow> (r, \<lparr>world = w', trace = trace s @ [CallTool tool_name tool_input r]\<rparr>))"

text \<open>\<open>tool_result.content[0].text\<close>: IndexError on an empty sequence, AttributeError on a
  first element that is not a text content.\<close>

fun first_text :: "call_tool_result \<Rightarrow> exn + string" where
  "first_text (CallToolResult []) = Inl IndexError"
| "first_text (CallToolResult (TextContent t # _)) = Inr t"
| "first_text (CallToolResult (_ # _)) = Inl AttributeError"

text \<open>\<open>tool_input['sql']\<close>: KeyError when the dict lacks the key, TypeError when the input
  is not a dict.\<close>

fun subscript :: "json \<Rightarrow> string \<Rightarrow> exn + json" where
  "subscript (JObj kvs) k = (case map_of kvs k of None \<Rightarrow> Inl (KeyError k) | Some v \<Rightarrow> Inr v)"
| "subscript _ k = Inl TypeError"

text \<open>The user message appended after a tool call (lines 69-77 and 157-165).\<close>

definition tool_result_message :: "string \<Rightarrow> string \<Rightarrow> message" where
  "tool_result_message tool_id t = Message User [ToolResult tool_id [t]]"

section \<open>\<open>format_sql_result\<close>\<close>

text \<open>
  The \<open>try\<close> covers both library calls, and the bare \<open>except\<close> returns the input text.
  When the decoded value is not a non-empty list, control leaves the \<open>try\<close> and the
  function ends without a \<open>return\<close>: the value is \<open>None\<close>.
\<close>

definition format_sql_result :: "libs \<Rightarrow> string \<Rightarrow> shaped" where
  "format_sql_result lib result_text =
     (case json_loads lib result_text of
        Inl e \<Rightarrow> RawText result_text
      | Inr data \<Rightarrow>
          (case data of
             JArr xs \<Rightarrow>
               (if length xs > 0 then
                  (case pd_DataFrame lib xs of
                     Inl e \<Rightarrow> RawText result_text
                   | Inr df \<Rightarrow> Frame df)
                else NoneValue)
           | _ \<Rightarrow> NoneValue))"

section \<open>\<open>get_table_info\<close>\<close>

text \<open>The \<open>for\<close> loop of lines 59-77, from the variable \<open>table_info\<close> and the transcript
  \<open>message_list\<close> as they stand to their values after the loop.\<close>

fun get_table_info_tools ::
  "'w mcp_client \<Rightarrow> content_block list \<Rightarrow> string \<Rightarrow> message list \<Rightarrow> 'w io
     \<Rightarrow> (string \<times> message list) outcome \<times> 'w io" where
  "get_table_info_tools mcp [] table_info message_list s = (Returned (table_info, message_list), s)"
| "get_table_info_tools mcp (ToolUse tool_id tool_name tool_input # rest) table_info message_list s =
     (case invoke_tool mcp tool_name tool_input s of
        (Inl e, s1) \<Rightarrow> (Raised e, s1)
      | (Inr tool_result, s1) \<Rightarrow>
          (case first_text tool_result of
             Inl e \<Rightarrow> (Raised e, s1)
           | Inr t \<Rightarrow>
               get_table_info_tools mcp rest t
                 (message_list @ [tool_result_message tool_id t]) s1))"
| "get_table_info_tools mcp (_ # rest) table_info message_list s =
     get_table_info_tools mcp rest table_info message_list s"

text \<open>One pass through the body of the \<open>while True\<close> loop of lines 43-77: the gateway
  call, the test of the stop reason, and only then the append of the answer and the tools.\<close>

definition get_table_info_iteration ::
  "'w bedrock_client \<Rightarrow> 'w mcp_client \<Rightarrow> json \<Rightarrow> string \<Rightarrow> string \<Rightarrow> message list \<Rightarrow> 'w io
     \<Rightarrow> (string \<times> message list) pass \<times> 'w io" where
  "get_table_info_iteration bedrock_client mcp tools system_prompt table_info message_list s =
     (case converse bedrock_client tools system_prompt message_list s of
        (Inl e, s1) \<Rightarrow> (Fail e, s1)
      | (Inr response, s1) \<Rightarrow>
          if stopReason response \<noteq> ''tool_use'' then (Break (table_info, message_list), s1)
          else
            (case get_table_info_tools mcp (content (output_message response)) table_info
                    (message_list @ [output_message response]) s1 of
               (Raised e, s2) \<Rightarrow> (Fail e, s2)
             | (Returned v, s2) \<Rightarrow> (Continue v, s2)))"

text \<open>The loop itself. It has no bound: a run that never gets a stop reason other than
  \<open>tool_use\<close> has no value.\<close>

partial_function (option) get_table_info_loop ::
  "'w bedrock_client \<Rightarrow> 'w mcp_client \<Rightarrow> json \<Rightarrow> string \<Rightarrow> string \<Rightarrow> message list \<Rightarrow> 'w io
     \<Rightarrow> ((string \<times> message list) outcome \<times> 'w io) option" where
  "get_table_info_loop bedrock_client mcp tools system_prompt table_info message_list s =
     (case get_table_info_iteration bedrock_client mcp tools system_prompt table_info message_list s of
        (Fail e, s') \<Rightarrow> Some (Raised e, s')
      | (Break v, s') \<Rightarrow> Some (Returned v, s')
      | (Continue (table_info', message_list'), s') \<Rightarrow>
          get_table_info_loop bedrock_client mcp tools system_prompt table_info' message_list' s')"
declare get_table_info_loop.simps [code]

definition table_request :: "texts \<Rightarrow> string \<Rightarrow> message list" where
  "table_request txt query_request = [Message User [Text (table_request_prefix txt @ query_request)]]"

text \<open>The function as its caller sees it: the transcript is local and only \<open>table_info\<close>
  is returned.\<close>

definition get_table_info ::
  "texts \<Rightarrow> 'w mcp_client \<Rightarrow> 'w bedrock_client \<Rightarrow> json \<Rightarrow> string \<Rightarrow> 'w io
     \<Rightarrow> (string outcome \<times> 'w io) option" where
  "get_table_info txt mcp bedrock_client tools query_request s =
     (case get_table_info_loop bedrock_client mcp tools (table_system_prompt txt) ''''
             (table_request txt query_request) s of
        None \<Rightarrow> None
      | Some (Raised e, s') \<Rightarrow> Some (Raised e, s')
      | Some (Returned (table_info, message_list), s') \<Rightarrow> Some (Returned table_info, s'))"

section \<open>\<open>process_query\<close>\<close>

text \<open>Lines 118-121: every \<open>text\<close> block of the answer is shown.\<close>

fun show_texts :: "content_block list \<Rightarrow> 'w io \<Rightarrow> 'w io" where
  "show_texts [] s = s"
| "show_texts (Text t # rest) s = show_texts rest (log (UI (ShowText t)) s)"
| "show_texts (_ # rest) s = show_texts rest s"

text \<open>The \<open>for\<close> loop of lines 129-165.\<close>

fun process_query_tools ::
  "libs \<Rightarrow> 'w mcp_client \<Rightarrow> content_block list \<Rightarrow> message list \<Rightarrow> 'w io
     \<Rightarrow> (message list) outcome \<times> 'w io" where
  "process_query_tools lib mcp [] message_list s = (Returned message_list, s)"
| "process_query_tools lib mcp (ToolUse tool_id tool_name tool_input # rest) message_list s =
     (case subscript tool_input ''sql'' of
        Inl e \<Rightarrow> (Raised e, s)
      | Inr sql \<Rightarrow>
          (case invoke_tool mcp tool_name tool_input (log (UI (ShowQuery sql)) s) of
             (Inl e, s1) \<Rightarrow> (Raised e, s1)
           | (Inr tool_result, s1) \<Rightarrow>
               (case first_text tool_result of
                  Inl e \<Rightarrow> (Raised e, s1)
                | Inr t \<Rightarrow>
                    process_query_tools lib mcp rest
                      (message_list @ [tool_result_message tool_id t])
                      (log (UI (ShowResult (format_sql_result lib t))) s1))))"
| "process_query_tools lib mcp (_ # rest) message_list s =
     process_query_tools lib mcp rest message_list s"

text \<open>One pass through the body of the \<open>while True\<close> loop of lines 105-165.\<close>

definition process_query_iteration ::
  "libs \<Rightarrow> 'w bedrock_client \<Rightarrow> 'w mcp_client \<Rightarrow> json \<Rightarrow> string \<Rightarrow> message list \<Rightarrow> 'w io
     \<Rightarrow> (message list) pass \<times> 'w io" where
  "process_query_iteration lib bedrock_client mcp tools system_prompt message_list s =
     (case converse bedrock_client tools system_prompt message_list s of
        (Inl e, s1) \<Rightarrow> (Fail e, s1)
      | (Inr response, s1) \<Rightarrow>
          (let s2 = show_texts (content (output_message response)) s1 in
           if stopReason response \<noteq> ''tool_use'' then (Break message_list, s2)
           else
             (case process_query_tools lib mcp (content (output_message response))
                     (message_list @ [output_message response]) s2 of
                (Raised e, s3) \<Rightarrow> (Fail e, s3)
              | (Returned message_list', s3) \<Rightarrow> (Continue message_list', s3))))"

partial_function (option) process_query_loop ::
  "libs \<Rightarrow> 'w bedrock_client \<Rightarrow> 'w mcp_client \<Rightarrow> json \<Rightarrow> string \<Rightarrow> message list \<Rightarrow> 'w io
     \<Rightarrow> ((message list) outcome \<times> 'w io) option" where
  "process_query_loop lib bedrock_client mcp tools system_prompt message_list s =
     (case process_query_iteration lib bedrock_client mcp tools system_prompt message_list s of
        (Fail e, s') \<Rightarrow> Some (Raised e, s')
      | (Break v, s') \<Rightarrow> Some (Returned v, s')
      | (Continue message_list', s') \<Rightarrow>
          process_query_loop lib bedrock_client mcp tools system_prompt message_list' s')"
declare process_query_loop.simps [code]

text \<open>The function: an empty prompt returns at once (lines 95-96), before the transcript
  exists, which is why the transcript of the result is optional.\<close>

definition process_query ::
  "libs \<Rightarrow> string \<Rightarrow> 'w bedrock_client \<Rightarrow> 'w mcp_client \<Rightarrow> json \<Rightarrow> string \<Rightarrow> 'w io
     \<Rightarrow> ((message list option) outcome \<times> 'w io) option" where
  "process_query lib prompt bedrock_client mcp tools system_prompt s =
     (if prompt = '''' then Some (Returned None, s)
      else
        (case process_query_loop lib bedrock_client mcp tools system_prompt
                [Message User [Text prompt]] s of
           None \<Rightarrow> None
         | Some (Raised e, s') \<Rightarrow> Some (Raised e, s')
         | Some (Returned message_list, s') \<Rightarrow> Some (Returned (Some message_list), s')))"

section \<open>\<open>main\<close>\<close>

text \<open>\<open>st.session_state\<close> after lines 178-181, where a missing flag is set to \<open>False\<close>.\<close>

record session =
  is_running :: bool
  should_cancel :: bool

definition init_session :: "bool option \<Rightarrow> bool option \<Rightarrow> session" where
  "init_session running cancel =
     \<lparr>is_running = (case running of None \<Rightarrow> False | Some b \<Rightarrow> b),
      should_cancel = (case cancel of None \<Rightarrow> False | Some b \<Rightarrow> b)\<rparr>"

text \<open>\<open>await mcp_client.list_all_tools()\<close>\<close>

definition list_tools :: "'w mcp_client \<Rightarrow> 'w io \<Rightarrow> (exn + json) \<times> 'w io" where
  "list_tools mcp s =
     (case list_all_tools mcp (world s) of
        (r, w') \<Rightarrow> (r, \<lparr>world = w', trace = trace s @ [ListTools]\<rparr>))"

text \<open>A cancellation checkpoint that fires (lines 225-229 and 235-239): the warning, the
  flag, and \<open>st.rerun()\<close>, which ends the script run.\<close>

definition cancelled :: "session \<Rightarrow> 'w io \<Rightarrow> (unit outcome \<times> session) \<times> 'w io" where
  "cancelled ss s = ((Raised RerunException, ss\<lparr>is_running := False\<rparr>), log (UI ShowWarning) s)"

text \<open>The block under \<open>async with\<close>, lines 221-269 (\<open>print(tools)\<close> is left out). The
  session is written by this script run alone, so both checkpoints read the flag the run
  began with.\<close>

definition run_body ::
  "texts \<Rightarrow> libs \<Rightarrow> 'w bedrock_client \<Rightarrow> 'w mcp_client \<Rightarrow> string \<Rightarrow> session \<Rightarrow> 'w io
     \<Rightarrow> ((unit outcome \<times> session) \<times> 'w io) option" where
  "run_body txt lib bedrock_client mcp query ss s =
     (case list_tools mcp s of
        (Inl e, s1) \<Rightarrow> Some ((Raised e, ss), s1)
      | (Inr tools, s1) \<Rightarrow>
          if should_cancel ss then Some (cancelled ss s1)
          else
            (case get_table_info txt mcp bedrock_client tools query s1 of
               None \<Rightarrow> None
             | Some (Raised e, s2) \<Rightarrow> Some ((Raised e, ss), s2)
             | Some (Returned table_info, s2) \<Rightarrow>
                 if should_cancel ss then Some (cancelled ss s2)
                 else
                   (let s3 = log (UI (ShowSchema table_info)) s2;
                        system_prompt = query_prompt_head txt @ table_info @ query_prompt_tail txt
                    in case process_query lib query bedrock_client mcp tools system_prompt s3 of
                         None \<Rightarrow> None
                       | Some (Raised e, s4) \<Rightarrow> Some ((Raised e, ss), s4)
                       | Some (Returned _, s4) \<Rightarrow>
                           Some ((Raised RerunException, ss\<lparr>is_running := False\<rparr>), s4))))"

text \<open>
  Modelled from the spec: \<open>MultiMCPClient\<close> of the module \<open>mcp_client\<close>, whose source is
  not at hand. Section 5 has the executor connection acquired before the Schema Resolver
  begins and released unconditionally afterwards, even on error: entering may fail, leaving
  always happens and lets the exception of the block through.
\<close>

definition with_client ::
  "'w mcp_client \<Rightarrow> ('w io \<Rightarrow> ((unit outcome \<times> session) \<times> 'w io) option) \<Rightarrow> session \<Rightarrow> 'w io
     \<Rightarrow> ((unit outcome \<times> session) \<times> 'w io) option" where
  "with_client mcp block ss s =
     (case aenter mcp (world s) of
        (Inl e, w1) \<Rightarrow> Some ((Raised e, ss), \<lparr>world = w1, trace = trace s @ [EnterClient]\<rparr>)
      | (Inr _, w1) \<Rightarrow>
          (case block \<lparr>world = w1, trace = trace s @ [EnterClient]\<rparr> of
             None \<Rightarrow> None
           | Some (r, s2) \<Rightarrow>
               Some (r, \<lparr>world = aexit mcp (world s2), trace = trace s2 @ [ExitClient]\<rparr>)))"

text \<open>
  One script run of the page. \<open>running\<close> and \<open>cancel\<close> are the two flags as the session
  holds them when the run begins (absent on the first run), \<open>query\<close> is the text area,
  \<open>run_clicked\<close> and \<open>cancel_clicked\<close> say which button brought this run about. The run
  button is disabled while \<open>is_running\<close>, the cancel button exists only then.
\<close>

definition main ::
  "texts \<Rightarrow> libs \<Rightarrow> 'w bedrock_client \<Rightarrow> 'w mcp_client \<Rightarrow> bool option \<Rightarrow> bool option \<Rightarrow> string
     \<Rightarrow> bool \<Rightarrow> bool \<Rightarrow> 'w io \<Rightarrow> ((unit outcome \<times> session) \<times> 'w io) option" where
  "main txt lib bedrock_client mcp running cancel query run_clicked cancel_clicked s =
     (let ss = init_session running cancel in
      if run_clicked \<and> \<not> is_running ss then
        Some ((Raised RerunException, ss\<lparr>is_running := True, should_cancel := False\<rparr>), s)
      else if is_running ss \<and> cancel_clicked then
        Some ((Raised RerunException, ss\<lparr>should_cancel := True, is_running := False\<rparr>), s)
      else if is_running ss \<and> query \<noteq> '''' then
        with_client mcp (run_body txt lib bedrock_client mcp query ss) ss s
      else Some ((Returned (), ss), s))"

section \<open>Reading a trace\<close>

text \<open>The gateway calls and the executor calls of a trace, each in the order they were made.\<close>

fun is_converse :: "event \<Rightarrow> bool" where
  "is_converse (Converse _ _) = True"
| "is_converse _ = False"

fun is_call_tool :: "event \<Rightarrow> bool" where
  "is_call_tool (CallTool _ _ _) = True"
| "is_call_tool _ = False"

definition gateway_calls :: "event list \<Rightarrow> event list" where
  "gateway_calls evs = filter is_converse evs"

definition executor_calls :: "event list \<Rightarrow> event list" where
  "executor_calls evs = filter is_call_tool evs"

text \<open>What a stretch of execution added to the trace.\<close>

definition new_events :: "'w io \<Rightarrow> 'w io \<Rightarrow> event list" where
  "new_events s s' = drop (length (trace s)) (trace s')"

text \<open>The blocks of a message that ask for a tool, and its texts, in the order of the message.\<close>

fun is_tool_use :: "content_block \<Rightarrow> bool" where
  "is_tool_use (ToolUse _ _ _) = True"
| "is_tool_use _ = False"

definition tool_uses :: "content_block list \<Rightarrow> content_block list" where
  "tool_uses blocks = filter is_tool_use blocks"

fun block_texts :: "content_block list \<Rightarrow> string list" where
  "block_texts [] = []"
| "block_texts (Text t # rest) = t # block_texts rest"
| "block_texts (_ # rest) = block_texts rest"

text \<open>
  For the blocks of an assistant message: the executor calls that serve its \<open>toolUse\<close>
  blocks one after the other, given the results \<open>rs\<close> the executor gave, and the user
  messages that answer them, given the texts \<open>ts\<close> that were read from the results. The
  k-th call carries the name and the input of the k-th \<open>toolUse\<close> block; the k-th message
  is a user message with one \<open>toolResult\<close>, for the id of the k-th block, with one text.
\<close>

definition calls_for :: "content_block list \<Rightarrow> call_tool_result list \<Rightarrow> event list" where
  "calls_for blocks rs = map2 (\<lambda>u r. CallTool (name u) (input u) (Inr r)) (tool_uses blocks) rs"

definition replies_to :: "content_block list \<Rightarrow> string list \<Rightarrow> message list" where
  "replies_to blocks ts =
     map2 (\<lambda>u t. Message User [ToolResult (toolUseId u) [t]]) (tool_uses blocks) ts"

text \<open>The gateway calls of a trace as pairs: the transcript that was sent, and the answer.\<close>

fun requests :: "event list \<Rightarrow> (message list \<times> (exn + response)) list" where
  "requests [] = []"
| "requests (Converse req r # evs) = (messages req, r) # requests evs"
| "requests (_ # evs) = requests evs"

text \<open>
  The id that a message answers: a user message that consists of one \<open>toolResult\<close> answers
  the id of that block, any other message answers none.
\<close>

fun answered_id :: "message \<Rightarrow> string option" where
  "answered_id (Message User [ToolResult tool_id ts]) = Some tool_id"
| "answered_id _ = None"

text \<open>
  The transcript \<open>ml'\<close> answers the \<open>response\<close> that the gateway gave to the transcript
  \<open>ml\<close>: it is \<open>ml\<close>, then the assistant message of the response, then messages that
  answer the ids of the \<open>toolUse\<close> blocks of that message, one message per block, in the
  order of the blocks, and nothing more.
\<close>

definition answers :: "message list \<Rightarrow> response \<Rightarrow> message list \<Rightarrow> bool" where
  "answers ml response ml' =
     (take (Suc (length ml)) ml' = ml @ [output_message response]
      \<and> map answered_id (drop (Suc (length ml)) ml')
          = map (\<lambda>u. Some (toolUseId u)) (tool_uses (content (output_message response))))"

text \<open>
  Referential integrity of a sequence of gateway calls: every call that has a successor got
  an answer from the gateway, and the transcript of the successor answers it.
\<close>

fun integrity :: "(message list \<times> (exn + response)) list \<Rightarrow> bool" where
  "integrity ((ml, r) # (ml', r') # rest) =
     ((case r of Inl e \<Rightarrow> False | Inr response \<Rightarrow> answers ml response ml')
      \<and> integrity ((ml', r') # rest))"
| "integrity _ = True"

definition chained :: "message list \<Rightarrow> event list \<Rightarrow> bool" where
  "chained ml evs =
     (requests evs \<noteq> [] \<and> fst (hd (requests evs)) = ml \<and> integrity (requests evs))"

text \<open>
  The text that \<open>tool_result.content[0].text\<close> reads from the result of an executor call,
  and that text for the last executor call of a trace: the empty string, the initial value
  of \<open>table_info\<close>, when the trace has no executor call.
\<close>

fun call_text :: "event \<Rightarrow> exn + string" where
  "call_text (CallTool tool_name tool_input (Inr tool_result)) = first_text tool_result"
| "call_text (CallTool tool_name tool_input (Inl e)) = Inl e"
| "call_text _ = Inl AttributeError"

definition last_tool_text :: "event list \<Rightarrow> exn + string" where
  "last_tool_text evs =
     (if executor_calls evs = [] then Inr '''' else call_text (last (executor_calls evs)))"

section \<open>A scripted gateway and an echoing executor\<close>

text \<open>
  The test set-up of section 8 of the specification: a gateway that gives the answers of a
  script one after the other (the world counts the gateway calls made so far), and an
  executor that answers every call with the same content, or fails every call.
\<close>

definition scripted_gateway :: "response list \<Rightarrow> nat bedrock_client" where
  "scripted_gateway script n req =
     (if n < length script then Inr (script ! n) else Inl (ClientError ''script exhausted''),
      Suc n)"

definition echo_client :: "mcp_content list \<Rightarrow> nat mcp_client" where
  "echo_client c =
     \<lparr>call_tool = (\<lambda>w tool_name tool_input. (Inr (CallToolResult c), w)),
      list_all_tools = (\<lambda>w. (Inr (JArr []), w)),
      aenter = (\<lambda>w. (Inr (), w)),
      aexit = (\<lambda>w. w)\<rparr>"

definition failing_client :: "exn \<Rightarrow> nat mcp_client" where
  "failing_client e =
     \<lparr>call_tool = (\<lambda>w tool_name tool_input. (Inl e, w)),
      list_all_tools = (\<lambda>w. (Inr (JArr []), w)),
      aenter = (\<lambda>w. (Inr (), w)),
      aexit = (\<lambda>w. w)\<rparr>"

definition lost :: exn where
  "lost = ToolError ''connection lost''"

text \<open>What \<open>json.loads\<close> gives on the few texts the examples use, and a frame of one
  column per key for a list of records.\<close>

definition example_loads :: "string \<Rightarrow> exn + json" where
  "example_loads t =
     (if t = ''[]'' then Inr (JArr [])
      else if t = ''{}'' then Inr (JObj [])
      else if t = ''[{}]'' then Inr (JArr [JObj []])
      else Inl JSONDecodeError)"

fun record_keys :: "json \<Rightarrow> string list" where
  "record_keys (JObj kvs) = map fst kvs"
| "record_keys _ = []"

fun record_cell :: "json \<Rightarrow> string \<Rightarrow> json option" where
  "record_cell (JObj kvs) k = map_of kvs k"
| "record_cell _ k = None"

definition example_frame :: "json list \<Rightarrow> exn + dataframe" where
  "example_frame xs =
     (let cols = remdups (concat (map record_keys xs))
      in Inr (DataFrame cols (map (\<lambda>r. map (record_cell r) cols) xs)))"

definition example_libs :: libs where
  "example_libs = \<lparr>json_loads = example_loads, pd_DataFrame = example_frame\<rparr>"

definition example_texts :: texts where
  "example_texts =
     \<lparr>table_system_prompt = ''table directive'', table_request_prefix = ''tables for: '',
      query_prompt_head = ''schema: '', query_prompt_tail = '' write one SELECT''\<rparr>"

text \<open>
  Scripts: the gateway answers at once; it asks for one tool, then answers; it asks for two
  tools in one message, then answers. The executor's content for a query without rows.
\<close>

definition select_one :: json where
  "select_one = JObj [(''sql'', JStr ''select 1'')]"

definition answer_at_once :: "response list" where
  "answer_at_once = [Response ''end_turn'' (Message Assistant [Text ''done''])]"

definition ask_one_tool :: "response list" where
  "ask_one_tool =
     [Response ''tool_use'' (Message Assistant [Text ''looking'', ToolUse ''t1'' ''query'' select_one]),
      Response ''end_turn'' (Message Assistant [Text ''done''])]"

definition ask_two_tools :: "response list" where
  "ask_two_tools =
     [Response ''tool_use''
        (Message Assistant [ToolUse ''t1'' ''query'' select_one, ToolUse ''t2'' ''query'' select_one]),
      Response ''end_turn'' (Message Assistant [Text ''done''])]"

definition empty_rows :: "mcp_content list" where
  "empty_rows = [TextContent ''[]'']"

text \<open>
  The states of the example runs: \<open>start\<close>, before anything is done, and \<open>asked\<close>, the
  transcript the loops start from; where the run stands when the gateway has answered at
  once; the transcript after the pass that served two tools, and where each loop stands
  after that pass and at its end.
\<close>

definition start :: "nat io" where
  "start = \<lparr>world = 0, trace = []\<rparr>"

definition asked :: "message list" where
  "asked = [Message User [Text ''orders'']]"

definition answered_at_once :: "nat io" where
  "answered_at_once =
     \<lparr>world = 1,
        trace = [Converse (Request model_id asked ''sys'' JNull) (Inr (answer_at_once ! 0))]\<rparr>"

definition two_answered :: "message list" where
  "two_answered =
     [Message User [Text ''orders''],
      Message Assistant [ToolUse ''t1'' ''query'' select_one, ToolUse ''t2'' ''query'' select_one],
      Message User [ToolResult ''t1'' [''[]'']],
      Message User [ToolResult ''t2'' [''[]'']]]"

definition after_two_tools :: "nat io" where
  "after_two_tools =
     \<lparr>world = 1,
        trace = [Converse (Request model_id asked ''sys'' JNull) (Inr (ask_two_tools ! 0)),
                 CallTool ''query'' select_one (Inr (CallToolResult empty_rows)),
                 CallTool ''query'' select_one (Inr (CallToolResult empty_rows))]\<rparr>"

definition after_two_queries :: "nat io" where
  "after_two_queries =
     \<lparr>world = 1,
        trace = [Converse (Request model_id asked ''sys'' JNull) (Inr (ask_two_tools ! 0)),
                 UI (ShowQuery (JStr ''select 1'')),
                 CallTool ''query'' select_one (Inr (CallToolResult empty_rows)),
                 UI (ShowResult NoneValue),
                 UI (ShowQuery (JStr ''select 1'')),
                 CallTool ''query'' select_one (Inr (CallToolResult empty_rows)),
                 UI (ShowResult NoneValue)]\<rparr>"

definition two_tools_done :: "nat io" where
  "two_tools_done =
     \<lparr>world = 2,
        trace = trace after_two_tools
          @ [Converse (Request model_id two_answered ''sys'' JNull) (Inr (ask_two_tools ! 1))]\<rparr>"

definition two_queries_done :: "nat io" where
  "two_queries_done =
     \<lparr>world = 2,
        trace = trace after_two_queries
          @ [Converse (Request model_id two_answered ''sys'' JNull) (Inr (ask_two_tools ! 1)),
             UI (ShowText ''done'')]\<rparr>"

text \<open>
  An executor that answers every call with the name of the tool that was called, a script
  that asks for two tools of different names, and where \<open>get_table_info\<close> stands at the end
  of that run.
\<close>

definition name_client :: "nat mcp_client" where
  "name_client =
     \<lparr>call_tool = (\<lambda>w tool_name tool_input. (Inr (CallToolResult [TextContent tool_name]), w)),
      list_all_tools = (\<lambda>w. (Inr (JArr []), w)),
      aenter = (\<lambda>w. (Inr (), w)),
      aexit = (\<lambda>w. w)\<rparr>"

definition ask_two_names :: "response list" where
  "ask_two_names =
     [Response ''tool_use''
        (Message Assistant [ToolUse ''t1'' ''first'' select_one, ToolUse ''t2'' ''second'' select_one]),
      Response ''end_turn'' (Message Assistant [Text ''done''])]"

definition two_names_done :: "nat io" where
  "two_names_done =
     \<lparr>world = 2,
        trace = [Converse (Request model_id [Message User [Text ''tables for: orders'']]
                   ''table directive'' JNull) (Inr (ask_two_names ! 0)),
                 CallTool ''first'' select_one (Inr (CallToolResult [TextContent ''first''])),
                 CallTool ''second'' select_one (Inr (CallToolResult [TextContent ''second''])),
                 Converse (Request model_id
                   [Message User [Text ''tables for: orders''],
                    output_message (ask_two_names ! 0),
                    Message User [ToolResult ''t1'' [''first'']],
                    Message User [ToolResult ''t2'' [''second'']]]
                   ''table directive'' JNull) (Inr (ask_two_names ! 1))]\<rparr>"

section \<open>What each step adds to the trace\<close>

lemma show_texts_world: "world (show_texts bs s) = world s"
  by (induction bs s rule: show_texts.induct) (simp_all add: log_def)

lemma show_texts_trace:
  "trace (show_texts bs s) = trace s @ map (\<lambda>t. UI (ShowText t)) (block_texts bs)"
  by (induction bs s rule: show_texts.induct) (simp_all add: log_def)

lemma gateway_calls_show_texts:
  "gateway_calls (map (\<lambda>t. UI (ShowText t)) ts) = []"
  by (induction ts) (simp_all add: gateway_calls_def)

lemma executor_calls_show_texts:
  "executor_calls (map (\<lambda>t. UI (ShowText t)) ts) = []"
  by (induction ts) (simp_all add: executor_calls_def)

lemma converse_eq:
  "converse b tools sys ml s = (r, s1) \<longleftrightarrow>
     (\<exists>w'. b (world s) (Request model_id ml sys tools) = (r, w')
        \<and> s1 = \<lparr>world = w', trace = trace s @ [Converse (Request model_id ml sys tools) r]\<rparr>)"
  by (auto simp: converse_def Let_def split: prod.splits)

lemma invoke_tool_eq:
  "invoke_tool mcp n i s = (r, s1) \<longleftrightarrow>
     (\<exists>w'. call_tool mcp (world s) n i = (r, w')
        \<and> s1 = \<lparr>world = w', trace = trace s @ [CallTool n i r]\<rparr>)"
  by (auto simp: invoke_tool_def split: prod.splits)

subsection \<open>The two for loops\<close>

lemma get_table_info_tools_returned:
  "get_table_info_tools mcp bs ti ml s = (Returned (ti', ml'), s') \<Longrightarrow>
   \<exists>rs ts. length rs = length (tool_uses bs) \<and> map first_text rs = map Inr ts
     \<and> trace s' = trace s @ calls_for bs rs
     \<and> ml' = ml @ replies_to bs ts
     \<and> ti' = last (ti # ts)"
proof (induction mcp bs ti ml s rule: get_table_info_tools.induct)
  case (1 mcp table_info message_list s)
  then show ?case by (simp add: tool_uses_def calls_for_def replies_to_def)
next
  case (2 mcp tool_id tool_name tool_input rest table_info message_list s)
  from "2.prems" obtain res s1 t where
    inv: "invoke_tool mcp tool_name tool_input s = (Inr res, s1)"
    and ft: "first_text res = Inr t"
    and rest: "get_table_info_tools mcp rest t
                 (message_list @ [tool_result_message tool_id t]) s1 = (Returned (ti', ml'), s')"
    by (auto split: prod.splits sum.splits)
  from "2.IH" [OF inv [symmetric] refl ft rest] obtain rs ts where
    IH: "length rs = length (tool_uses rest)" "map first_text rs = map Inr ts"
      "trace s' = trace s1 @ calls_for rest rs"
      "ml' = (message_list @ [tool_result_message tool_id t]) @ replies_to rest ts"
      "ti' = last (t # ts)"
    by blast
  from inv have tr: "trace s1 = trace s @ [CallTool tool_name tool_input (Inr res)]"
    by (auto simp: invoke_tool_eq)
  have "length (res # rs) = length (tool_uses (ToolUse tool_id tool_name tool_input # rest))"
    using IH(1) by (simp add: tool_uses_def)
  moreover have "map first_text (res # rs) = map Inr (t # ts)"
    using IH(2) ft by simp
  moreover have "trace s' = trace s @ calls_for (ToolUse tool_id tool_name tool_input # rest) (res # rs)"
    using IH(3) tr by (simp add: calls_for_def tool_uses_def)
  moreover have "ml' = message_list @ replies_to (ToolUse tool_id tool_name tool_input # rest) (t # ts)"
    using IH(4) by (simp add: replies_to_def tool_uses_def tool_result_message_def)
  moreover have "ti' = last (table_info # t # ts)"
    using IH(5) by simp
  ultimately show ?case by blast
qed (simp_all add: tool_uses_def calls_for_def replies_to_def)

lemma gateway_calls_append: "gateway_calls (xs @ ys) = gateway_calls xs @ gateway_calls ys"
  by (simp add: gateway_calls_def)

lemma executor_calls_append: "executor_calls (xs @ ys) = executor_calls xs @ executor_calls ys"
  by (simp add: executor_calls_def)

lemma gateway_calls_calls_for: "gateway_calls (calls_for bs rs) = []"
  by (auto simp: gateway_calls_def calls_for_def filter_empty_conv)

lemma executor_calls_calls_for: "executor_calls (calls_for bs rs) = calls_for bs rs"
  by (auto simp: executor_calls_def calls_for_def filter_id_conv)

lemma new_events_append: "trace s' = trace s @ evs \<Longrightarrow> new_events s s' = evs"
  by (simp add: new_events_def)

lemma process_query_tools_returned:
  "process_query_tools lib mcp bs ml s = (Returned ml', s') \<Longrightarrow>
   \<exists>rs ts evs. length rs = length (tool_uses bs) \<and> map first_text rs = map Inr ts
     \<and> trace s' = trace s @ evs \<and> gateway_calls evs = []
     \<and> executor_calls evs = calls_for bs rs
     \<and> ml' = ml @ replies_to bs ts"
proof (induction lib mcp bs ml s rule: process_query_tools.induct)
  case (1 lib mcp message_list s)
  then show ?case
    by (simp add: tool_uses_def calls_for_def replies_to_def gateway_calls_def executor_calls_def)
next
  case (2 lib mcp tool_id tool_name tool_input rest message_list s)
  from "2.prems" obtain sql res s1 t where
    sub: "subscript tool_input ''sql'' = Inr sql"
    and inv: "invoke_tool mcp tool_name tool_input (log (UI (ShowQuery sql)) s) = (Inr res, s1)"
    and ft: "first_text res = Inr t"
    and rest: "process_query_tools lib mcp rest (message_list @ [tool_result_message tool_id t])
                 (log (UI (ShowResult (format_sql_result lib t))) s1) = (Returned ml', s')"
    by (auto split: prod.splits sum.splits)
  from "2.IH" [OF sub inv [symmetric] refl ft rest] obtain rs ts evs where
    IH: "length rs = length (tool_uses rest)" "map first_text rs = map Inr ts"
      "trace s' = trace (log (UI (ShowResult (format_sql_result lib t))) s1) @ evs"
      "gateway_calls evs = []" "executor_calls evs = calls_for rest rs"
      "ml' = (message_list @ [tool_result_message tool_id t]) @ replies_to rest ts"
    by blast
  let ?here = "[UI (ShowQuery sql), CallTool tool_name tool_input (Inr res),
                UI (ShowResult (format_sql_result lib t))]"
  from inv have tr: "trace s' = trace s @ ?here @ evs"
    using IH(3) by (auto simp: invoke_tool_eq log_def)
  have "length (res # rs) = length (tool_uses (ToolUse tool_id tool_name tool_input # rest))"
    using IH(1) by (simp add: tool_uses_def)
  moreover have "map first_text (res # rs) = map Inr (t # ts)"
    using IH(2) ft by simp
  moreover have "gateway_calls (?here @ evs) = []"
    using IH(4) by (simp add: gateway_calls_def)
  moreover have "executor_calls (?here @ evs)
      = calls_for (ToolUse tool_id tool_name tool_input # rest) (res # rs)"
    using IH(5) by (simp add: executor_calls_def calls_for_def tool_uses_def)
  moreover have "ml' = message_list @ replies_to (ToolUse tool_id tool_name tool_input # rest) (t # ts)"
    using IH(6) by (simp add: replies_to_def tool_uses_def tool_result_message_def)
  ultimately show ?case using tr by blast
qed (simp_all add: tool_uses_def calls_for_def replies_to_def)

lemma get_table_info_tools_no_gateway:
  "get_table_info_tools mcp bs ti ml s = (out, s') \<Longrightarrow>
   \<exists>evs. trace s' = trace s @ evs \<and> gateway_calls evs = []"
proof (induction mcp bs ti ml s rule: get_table_info_tools.induct)
  case (2 mcp tool_id tool_name tool_input rest table_info message_list s)
  obtain r s1 where inv: "invoke_tool mcp tool_name tool_input s = (r, s1)"
    by (cases "invoke_tool mcp tool_name tool_input s")
  then have tr: "trace s1 = trace s @ [CallTool tool_name tool_input r]"
    by (auto simp: invoke_tool_eq)
  show ?case
  proof (cases r)
    case (Inl e)
    with inv "2.prems" tr show ?thesis by (auto simp: gateway_calls_def)
  next
    case (Inr res)
    show ?thesis
    proof (cases "first_text res")
      case (Inl e)
      with Inr inv "2.prems" tr show ?thesis by (auto simp: gateway_calls_def)
    next
      case (Inr t)
      with \<open>r = Inr res\<close> inv "2.prems" have
        "get_table_info_tools mcp rest t (message_list @ [tool_result_message tool_id t]) s1 = (out, s')"
        by simp
      from "2.IH" [OF inv [symmetric] \<open>r = Inr res\<close> Inr this] tr show ?thesis
        by (auto simp: gateway_calls_def)
    qed
  qed
qed (simp_all add: gateway_calls_def)

lemma process_query_tools_no_gateway:
  "process_query_tools lib mcp bs ml s = (out, s') \<Longrightarrow>
   \<exists>evs. trace s' = trace s @ evs \<and> gateway_calls evs = []"
proof (induction lib mcp bs ml s rule: process_query_tools.induct)
  case (2 lib mcp tool_id tool_name tool_input rest message_list s)
  show ?case
  proof (cases "subscript tool_input ''sql''")
    case (Inl e)
    with "2.prems" show ?thesis by (auto simp: gateway_calls_def)
  next
    case sub: (Inr sql)
    obtain r s1 where inv: "invoke_tool mcp tool_name tool_input (log (UI (ShowQuery sql)) s) = (r, s1)"
      by (cases "invoke_tool mcp tool_name tool_input (log (UI (ShowQuery sql)) s)")
    then have tr: "trace s1 = trace s @ [UI (ShowQuery sql), CallTool tool_name tool_input r]"
      by (auto simp: invoke_tool_eq log_def)
    show ?thesis
    proof (cases r)
      case (Inl e)
      with sub inv "2.prems" tr show ?thesis by (auto simp: gateway_calls_def)
    next
      case (Inr res)
      show ?thesis
      proof (cases "first_text res")
        case (Inl e)
        with Inr sub inv "2.prems" tr show ?thesis by (auto simp: gateway_calls_def)
      next
        case (Inr t)
        with \<open>r = Inr res\<close> sub inv "2.prems" have
          "process_query_tools lib mcp rest (message_list @ [tool_result_message tool_id t])
             (log (UI (ShowResult (format_sql_result lib t))) s1) = (out, s')"
          by simp
        from "2.IH" [OF sub inv [symmetric] \<open>r = Inr res\<close> Inr this] tr show ?thesis
          by (auto simp: gateway_calls_def log_def)
      qed
    qed
  qed
qed (simp_all add: gateway_calls_def)

lemma get_table_info_tools_append:
  "get_table_info_tools mcp (xs @ ys) ti ml s =
     (case get_table_info_tools mcp xs ti ml s of
        (Raised e, s1) \<Rightarrow> (Raised e, s1)
      | (Returned (ti', ml'), s1) \<Rightarrow> get_table_info_tools mcp ys ti' ml' s1)"
  by (induction mcp xs ti ml s rule: get_table_info_tools.induct)
     (auto split: prod.splits sum.splits outcome.splits)

lemma process_query_tools_append:
  "process_query_tools lib mcp (xs @ ys) ml s =
     (case process_query_tools lib mcp xs ml s of
        (Raised e, s1) \<Rightarrow> (Raised e, s1)
      | (Returned ml', s1) \<Rightarrow> process_query_tools lib mcp ys ml' s1)"
  by (induction lib mcp xs ml s rule: process_query_tools.induct)
     (auto split: prod.splits sum.splits outcome.splits)

lemma requests_append: "requests (xs @ ys) = requests xs @ requests ys"
  by (induction xs rule: requests.induct) simp_all

lemma requests_no_gateway: "gateway_calls evs = [] \<Longrightarrow> requests evs = []"
  by (induction evs rule: requests.induct) (simp_all add: gateway_calls_def)

lemma answered_id_map2:
  "length us = length ts \<Longrightarrow>
   map answered_id (map2 (\<lambda>u t. Message User [ToolResult (toolUseId u) [t]]) us ts)
     = map (\<lambda>u. Some (toolUseId u)) us"
  by (induction us ts rule: list_induct2) simp_all

lemma answered_id_replies_to:
  "length ts = length (tool_uses bs) \<Longrightarrow>
   map answered_id (replies_to bs ts) = map (\<lambda>u. Some (toolUseId u)) (tool_uses bs)"
  unfolding replies_to_def by (rule answered_id_map2) simp

lemma map_eq_length: "map f xs = map g ys \<Longrightarrow> length xs = length ys"
  by (metis length_map)

lemma answers_replies:
  "length ts = length (tool_uses (content (output_message response))) \<Longrightarrow>
   answers ml response (ml @ output_message response # replies_to (content (output_message response)) ts)"
  by (simp add: answers_def answered_id_replies_to)

subsection \<open>One pass through a while loop\<close>

lemma get_table_info_iteration_Break:
  "get_table_info_iteration b mcp tools sys ti ml s = (Break v, s') \<longleftrightarrow>
     (\<exists>response. converse b tools sys ml s = (Inr response, s')
        \<and> stopReason response \<noteq> ''tool_use'' \<and> v = (ti, ml))"
  by (auto simp: get_table_info_iteration_def split: prod.splits sum.splits outcome.splits if_splits)

lemma get_table_info_iteration_Continue:
  "get_table_info_iteration b mcp tools sys ti ml s = (Continue v, s') \<longleftrightarrow>
     (\<exists>response s1. converse b tools sys ml s = (Inr response, s1)
        \<and> stopReason response = ''tool_use''
        \<and> get_table_info_tools mcp (content (output_message response)) ti
             (ml @ [output_message response]) s1 = (Returned v, s'))"
  by (auto simp: get_table_info_iteration_def split: prod.splits sum.splits outcome.splits if_splits)

lemma get_table_info_iteration_Fail:
  "get_table_info_iteration b mcp tools sys ti ml s = (Fail e, s') \<longleftrightarrow>
     (converse b tools sys ml s = (Inl e, s')
      \<or> (\<exists>response s1. converse b tools sys ml s = (Inr response, s1)
        \<and> stopReason response = ''tool_use''
        \<and> get_table_info_tools mcp (content (output_message response)) ti
             (ml @ [output_message response]) s1 = (Raised e, s')))"
  by (auto simp: get_table_info_iteration_def split: prod.splits sum.splits outcome.splits if_splits)

lemma process_query_iteration_Break:
  "process_query_iteration lib b mcp tools sys ml s = (Break v, s') \<longleftrightarrow>
     (\<exists>response s1. converse b tools sys ml s = (Inr response, s1)
        \<and> s' = show_texts (content (output_message response)) s1
        \<and> stopReason response \<noteq> ''tool_use'' \<and> v = ml)"
  by (auto simp: process_query_iteration_def Let_def split: prod.splits sum.splits outcome.splits if_splits)

lemma process_query_iteration_Continue:
  "process_query_iteration lib b mcp tools sys ml s = (Continue v, s') \<longleftrightarrow>
     (\<exists>response s1. converse b tools sys ml s = (Inr response, s1)
        \<and> stopReason response = ''tool_use''
        \<and> process_query_tools lib mcp (content (output_message response))
             (ml @ [output_message response]) (show_texts (content (output_message response)) s1)
            = (Returned v, s'))"
  by (auto simp: process_query_iteration_def Let_def split: prod.splits sum.splits outcome.splits if_splits)

lemma process_query_iteration_Fail:
  "process_query_iteration lib b mcp tools sys ml s = (Fail e, s') \<longleftrightarrow>
     (converse b tools sys ml s = (Inl e, s')
      \<or> (\<exists>response s1. converse b tools sys ml s = (Inr response, s1)
        \<and> stopReason response = ''tool_use''
        \<and> process_query_tools lib mcp (content (output_message response))
             (ml @ [output_message response]) (show_texts (content (output_message response)) s1)
            = (Raised e, s')))"
  by (auto simp: process_query_iteration_def Let_def split: prod.splits sum.splits outcome.splits if_splits)

lemma get_table_info_iteration_shape:
  assumes "get_table_info_iteration b mcp tools sys ti ml s = (Continue (ti', ml'), s')"
  shows "\<exists>response rs ts. stopReason response = ''tool_use''
     \<and> length rs = length (tool_uses (content (output_message response)))
     \<and> map first_text rs = map Inr ts
     \<and> trace s' = trace s @ Converse (Request model_id ml sys tools) (Inr response)
          # calls_for (content (output_message response)) rs
     \<and> ml' = ml @ output_message response # replies_to (content (output_message response)) ts
     \<and> ti' = last (ti # ts)"
proof -
  from assms obtain response s1 where
    c: "converse b tools sys ml s = (Inr response, s1)"
    and stop: "stopReason response = ''tool_use''"
    and round: "get_table_info_tools mcp (content (output_message response)) ti
                  (ml @ [output_message response]) s1 = (Returned (ti', ml'), s')"
    by (auto simp: get_table_info_iteration_Continue)
  from c have tr: "trace s1 = trace s @ [Converse (Request model_id ml sys tools) (Inr response)]"
    by (auto simp: converse_eq)
  from get_table_info_tools_returned [OF round] tr stop show ?thesis
    by fastforce
qed

lemma process_query_iteration_shape:
  assumes "process_query_iteration lib b mcp tools sys ml s = (Continue ml', s')"
  shows "\<exists>response rs ts evs. stopReason response = ''tool_use''
     \<and> length rs = length (tool_uses (content (output_message response)))
     \<and> map first_text rs = map Inr ts
     \<and> trace s' = trace s @ Converse (Request model_id ml sys tools) (Inr response) # evs
     \<and> gateway_calls evs = []
     \<and> executor_calls evs = calls_for (content (output_message response)) rs
     \<and> ml' = ml @ output_message response # replies_to (content (output_message response)) ts"
proof -
  from assms obtain response s1 where
    c: "converse b tools sys ml s = (Inr response, s1)"
    and stop: "stopReason response = ''tool_use''"
    and round: "process_query_tools lib mcp (content (output_message response))
                  (ml @ [output_message response])
                  (show_texts (content (output_message response)) s1) = (Returned ml', s')"
    by (auto simp: process_query_iteration_Continue)
  let ?shown = "map (\<lambda>t. UI (ShowText t)) (block_texts (content (output_message response)))"
  from c have tr: "trace (show_texts (content (output_message response)) s1)
      = trace s @ Converse (Request model_id ml sys tools) (Inr response) # ?shown"
    by (auto simp: converse_eq show_texts_trace)
  from process_query_tools_returned [OF round] obtain rs ts evs where
    r: "length rs = length (tool_uses (content (output_message response)))"
       "map first_text rs = map Inr ts"
       "trace s' = trace (show_texts (content (output_message response)) s1) @ evs"
       "gateway_calls evs = []"
       "executor_calls evs = calls_for (content (output_message response)) rs"
       "ml' = (ml @ [output_message response]) @ replies_to (content (output_message response)) ts"
    by blast
  have "trace s' = trace s @ Converse (Request model_id ml sys tools) (Inr response) # (?shown @ evs)"
    using r(3) tr by simp
  moreover have "gateway_calls (?shown @ evs) = []"
    using r(4) by (simp add: gateway_calls_append gateway_calls_show_texts)
  moreover have "executor_calls (?shown @ evs) = calls_for (content (output_message response)) rs"
    using r(5) by (simp add: executor_calls_append executor_calls_show_texts)
  ultimately show ?thesis using stop r(1,2,6) by fastforce
qed

lemma get_table_info_iteration_Fail_trace:
  assumes "get_table_info_iteration b mcp tools sys ti ml s = (Fail e, s')"
  shows "\<exists>r evs. trace s' = trace s @ Converse (Request model_id ml sys tools) r # evs
     \<and> gateway_calls evs = []"
proof -
  from assms consider
    (gateway) "converse b tools sys ml s = (Inl e, s')"
  | (tool) response s1 where "converse b tools sys ml s = (Inr response, s1)"
      "get_table_info_tools mcp (content (output_message response)) ti
         (ml @ [output_message response]) s1 = (Raised e, s')"
    by (auto simp: get_table_info_iteration_Fail)
  then show ?thesis
  proof cases
    case gateway
    then show ?thesis by (auto simp: converse_eq gateway_calls_def)
  next
    case tool
    from get_table_info_tools_no_gateway [OF tool(2)] tool(1) show ?thesis
      by (auto simp: converse_eq)
  qed
qed

lemma process_query_iteration_Fail_trace:
  assumes "process_query_iteration lib b mcp tools sys ml s = (Fail e, s')"
  shows "\<exists>r evs. trace s' = trace s @ Converse (Request model_id ml sys tools) r # evs
     \<and> gateway_calls evs = []"
proof -
  from assms consider
    (gateway) "converse b tools sys ml s = (Inl e, s')"
  | (tool) response s1 where "converse b tools sys ml s = (Inr response, s1)"
      "process_query_tools lib mcp (content (output_message response))
         (ml @ [output_message response]) (show_texts (content (output_message response)) s1)
        = (Raised e, s')"
    by (auto simp: process_query_iteration_Fail)
  then show ?thesis
  proof cases
    case gateway
    then show ?thesis by (auto simp: converse_eq gateway_calls_def)
  next
    case tool
    from process_query_tools_no_gateway [OF tool(2)] obtain evs where
      e: "trace s' = trace (show_texts (content (output_message response)) s1) @ evs"
         "gateway_calls evs = []"
      by blast
    let ?shown = "map (\<lambda>t. UI (ShowText t)) (block_texts (content (output_message response)))"
    have "trace s' = trace s @ Converse (Request model_id ml sys tools) (Inr response) # (?shown @ evs)"
      using e(1) tool(1) by (auto simp: converse_eq show_texts_trace)
    moreover have "gateway_calls (?shown @ evs) = []"
      using e(2) by (simp add: gateway_calls_append gateway_calls_show_texts)
    ultimately show ?thesis by blast
  qed
qed

subsection \<open>Whole runs\<close>

lemma chained_single:
  "gateway_calls evs = [] \<Longrightarrow> chained (messages req) (Converse req r # evs)"
  by (simp add: chained_def requests_no_gateway)

lemma chained_step:
  assumes "gateway_calls evs1 = []" and "chained ml' evs2" and "answers (messages req) response ml'"
  shows "chained (messages req) (Converse req (Inr response) # evs1 @ evs2)"
proof -
  from assms(2) obtain r' rest where r: "requests evs2 = (ml', r') # rest"
    by (cases "requests evs2") (auto simp: chained_def)
  have "requests (Converse req (Inr response) # evs1 @ evs2) = (messages req, Inr response) # (ml', r') # rest"
    using assms(1) r by (simp add: requests_append requests_no_gateway)
  with assms(2,3) r show ?thesis by (simp add: chained_def)
qed

lemma get_table_info_loop_chained:
  assumes "get_table_info_loop b mcp tools sys ti ml s = Some y"
  shows "\<exists>evs. trace (snd y) = trace s @ evs \<and> chained ml evs"
proof (rule get_table_info_loop.raw_induct
    [where P = "\<lambda>b mcp tools sys ti ml s y. \<exists>evs. trace (snd y) = trace s @ evs \<and> chained ml evs",
     OF _ assms], goal_cases)
  case (1 loop b mcp tools sys ti ml s y)
  note IH = 1(1) and eq = 1(2)
  obtain p s1 where it: "get_table_info_iteration b mcp tools sys ti ml s = (p, s1)"
    by (cases "get_table_info_iteration b mcp tools sys ti ml s")
  let ?req = "Request model_id ml sys tools"
  show ?case
  proof (cases p)
    case (Break v)
    with it eq have y: "y = (Returned v, s1)" by simp
    from it Break obtain response where "converse b tools sys ml s = (Inr response, s1)"
      by (auto simp: get_table_info_iteration_Break)
    then have "trace s1 = trace s @ Converse ?req (Inr response) # []"
      by (auto simp: converse_eq)
    moreover have "chained ml (Converse ?req (Inr response) # [])"
      using chained_single [of "[]" ?req] by (simp add: gateway_calls_def)
    ultimately show ?thesis using y by auto
  next
    case (Fail e)
    with it eq have y: "y = (Raised e, s1)" by simp
    from get_table_info_iteration_Fail_trace [OF it [unfolded Fail]] obtain r evs where
      "trace s1 = trace s @ Converse ?req r # evs" "gateway_calls evs = []"
      by blast
    moreover from this have "chained ml (Converse ?req r # evs)"
      using chained_single [of evs ?req] by simp
    ultimately show ?thesis using y by auto
  next
    case (Continue v)
    obtain ti' ml' where v: "v = (ti', ml')" by (cases v)
    with it Continue eq have rec: "loop b mcp tools sys ti' ml' s1 = Some y" by simp
    from IH [OF rec] obtain evs2 where
      e2: "trace (snd y) = trace s1 @ evs2" "chained ml' evs2"
      by blast
    from get_table_info_iteration_shape [OF it [unfolded Continue v]] obtain response rs ts where
      sh: "length rs = length (tool_uses (content (output_message response)))"
          "map first_text rs = map Inr ts"
          "trace s1 = trace s @ Converse ?req (Inr response) # calls_for (content (output_message response)) rs"
          "ml' = ml @ output_message response # replies_to (content (output_message response)) ts"
      by blast
    have len: "length ts = length (tool_uses (content (output_message response)))"
      using sh(1,2) map_eq_length [of first_text rs Inr ts] by simp
    have "answers (messages ?req) response ml'"
      using answers_replies [OF len, of ml] sh(4) by simp
    from chained_step [OF gateway_calls_calls_for e2(2) this]
    have "chained ml (Converse ?req (Inr response) # calls_for (content (output_message response)) rs @ evs2)"
      by simp
    moreover have "trace (snd y) = trace s @ Converse ?req (Inr response)
        # calls_for (content (output_message response)) rs @ evs2"
      using e2(1) sh(3) by simp
    ultimately show ?thesis by blast
  qed
qed

lemma process_query_loop_chained:
  assumes "process_query_loop lib b mcp tools sys ml s = Some y"
  shows "\<exists>evs. trace (snd y) = trace s @ evs \<and> chained ml evs"
proof (rule process_query_loop.raw_induct
    [where P = "\<lambda>lib b mcp tools sys ml s y. \<exists>evs. trace (snd y) = trace s @ evs \<and> chained ml evs",
     OF _ assms], goal_cases)
  case (1 loop lib b mcp tools sys ml s y)
  note IH = 1(1) and eq = 1(2)
  obtain p s1 where it: "process_query_iteration lib b mcp tools sys ml s = (p, s1)"
    by (cases "process_query_iteration lib b mcp tools sys ml s")
  let ?req = "Request model_id ml sys tools"
  show ?case
  proof (cases p)
    case (Break v)
    with it eq have y: "y = (Returned v, s1)" by simp
    from it Break obtain response s0 where
      "converse b tools sys ml s = (Inr response, s0)"
      "s1 = show_texts (content (output_message response)) s0"
      by (auto simp: process_query_iteration_Break)
    then have "trace s1 = trace s @ Converse ?req (Inr response)
        # map (\<lambda>t. UI (ShowText t)) (block_texts (content (output_message response)))"
      by (auto simp: converse_eq show_texts_trace)
    moreover have "chained ml (Converse ?req (Inr response)
        # map (\<lambda>t. UI (ShowText t)) (block_texts (content (output_message response))))"
      using chained_single [OF gateway_calls_show_texts, of ?req] by simp
    ultimately show ?thesis using y by auto
  next
    case (Fail e)
    with it eq have y: "y = (Raised e, s1)" by simp
    from process_query_iteration_Fail_trace [OF it [unfolded Fail]] obtain r evs where
      "trace s1 = trace s @ Converse ?req r # evs" "gateway_calls evs = []"
      by blast
    moreover from this have "chained ml (Converse ?req r # evs)"
      using chained_single [of evs ?req] by simp
    ultimately show ?thesis using y by auto
  next
    case (Continue ml')
    with it eq have rec: "loop lib b mcp tools sys ml' s1 = Some y" by simp
    from IH [OF rec] obtain evs2 where
      e2: "trace (snd y) = trace s1 @ evs2" "chained ml' evs2"
      by blast
    from process_query_iteration_shape [OF it [unfolded Continue]] obtain response rs ts evs1 where
      sh: "length rs = length (tool_uses (content (output_message response)))"
          "map first_text rs = map Inr ts"
          "trace s1 = trace s @ Converse ?req (Inr response) # evs1"
          "gateway_calls evs1 = []"
          "ml' = ml @ output_message response # replies_to (content (output_message response)) ts"
      by blast
    have len: "length ts = length (tool_uses (content (output_message response)))"
      using sh(1,2) map_eq_length [of first_text rs Inr ts] by simp
    have "answers (messages ?req) response ml'"
      using answers_replies [OF len, of ml] sh(5) by simp
    from chained_step [OF sh(4) e2(2) this]
    have "chained ml (Converse ?req (Inr response) # evs1 @ evs2)"
      by simp
    moreover have "trace (snd y) = trace s @ Converse ?req (Inr response) # evs1 @ evs2"
      using e2(1) sh(3) by simp
    ultimately show ?thesis by blast
  qed
qed

lemma call_text_last_map2:
  "length us = length rs \<Longrightarrow> rs \<noteq> [] \<Longrightarrow>
   call_text (last (map2 (\<lambda>u r. CallTool (name u) (input u) (Inr r)) us rs)) = first_text (last rs)"
  by (induction us rs rule: list_induct2) auto

lemma call_text_last_calls_for:
  assumes "length rs = length (tool_uses bs)" and "map first_text rs = map Inr ts" and "rs \<noteq> []"
  shows "call_text (last (calls_for bs rs)) = Inr (last ts)"
proof -
  have "call_text (last (calls_for bs rs)) = first_text (last rs)"
    unfolding calls_for_def using assms(1,3) by (intro call_text_last_map2) simp_all
  also have "\<dots> = last (map first_text rs)"
    using assms(3) by (simp add: last_map)
  also have "\<dots> = Inr (last ts)"
    using assms(2,3) by (cases ts) (auto simp: last_map)
  finally show ?thesis .
qed

lemma calls_for_empty: "length rs = length (tool_uses bs) \<Longrightarrow> calls_for bs rs = [] \<longleftrightarrow> rs = []"
  by (cases rs; cases "tool_uses bs") (simp_all add: calls_for_def)

lemma get_table_info_loop_last_text:
  assumes "get_table_info_loop b mcp tools sys ti ml s = Some y"
  shows "\<exists>evs. trace (snd y) = trace s @ evs
    \<and> (\<forall>v ml'. fst y = Returned (v, ml') \<longrightarrow>
          (if executor_calls evs = [] then v = ti
           else call_text (last (executor_calls evs)) = Inr v))"
proof (rule get_table_info_loop.raw_induct
    [where P = "\<lambda>b mcp tools sys ti ml s y. \<exists>evs. trace (snd y) = trace s @ evs
       \<and> (\<forall>v ml'. fst y = Returned (v, ml') \<longrightarrow>
          (if executor_calls evs = [] then v = ti
           else call_text (last (executor_calls evs)) = Inr v))",
     OF _ assms], goal_cases)
  case (1 loop b mcp tools sys ti ml s y)
  note IH = 1(1) and eq = 1(2)
  obtain p s1 where it: "get_table_info_iteration b mcp tools sys ti ml s = (p, s1)"
    by (cases "get_table_info_iteration b mcp tools sys ti ml s")
  let ?req = "Request model_id ml sys tools"
  show ?case
  proof (cases p)
    case (Break v)
    with it eq have y: "y = (Returned v, s1)" by simp
    from it Break obtain response where "converse b tools sys ml s = (Inr response, s1)"
      and v: "v = (ti, ml)"
      by (auto simp: get_table_info_iteration_Break)
    then have "trace s1 = trace s @ [Converse ?req (Inr response)]"
      by (auto simp: converse_eq)
    then show ?thesis using y v by (auto simp: executor_calls_def)
  next
    case (Fail e)
    with it eq have y: "y = (Raised e, s1)" by simp
    from get_table_info_iteration_Fail_trace [OF it [unfolded Fail]] y show ?thesis
      by auto
  next
    case (Continue v)
    obtain ti' ml' where v: "v = (ti', ml')" by (cases v)
    with it Continue eq have rec: "loop b mcp tools sys ti' ml' s1 = Some y" by simp
    from IH [OF rec] obtain evs2 where
      e2: "trace (snd y) = trace s1 @ evs2"
          "\<forall>v ml'. fst y = Returned (v, ml') \<longrightarrow>
             (if executor_calls evs2 = [] then v = ti'
              else call_text (last (executor_calls evs2)) = Inr v)"
      by blast
    from get_table_info_iteration_shape [OF it [unfolded Continue v]] obtain response rs ts where
      sh: "length rs = length (tool_uses (content (output_message response)))"
          "map first_text rs = map Inr ts"
          "trace s1 = trace s @ Converse ?req (Inr response) # calls_for (content (output_message response)) rs"
          "ti' = last (ti # ts)"
      by blast
    let ?calls = "calls_for (content (output_message response)) rs"
    let ?evs = "Converse ?req (Inr response) # ?calls @ evs2"
    have tr: "trace (snd y) = trace s @ ?evs"
      using e2(1) sh(3) by simp
    have ex: "executor_calls ?evs = ?calls @ executor_calls evs2"
      by (simp add: executor_calls_def executor_calls_calls_for [unfolded executor_calls_def])
    have len: "length ts = length rs"
      using map_eq_length [OF sh(2)] by simp
    have "if executor_calls ?evs = [] then w = ti
          else call_text (last (executor_calls ?evs)) = Inr w"
      if w: "fst y = Returned (w, wl)" for w wl
    proof (cases "executor_calls evs2 = []")
      case True
      with e2(2) w have w': "w = ti'" by auto
      have ce: "?calls = [] \<longleftrightarrow> rs = []"
        by (rule calls_for_empty [OF sh(1)])
      show ?thesis
      proof (cases "rs = []")
        case True
        then have "ts = []" using len by simp
        with True ce sh(4) w' \<open>executor_calls evs2 = []\<close> ex show ?thesis
          by simp
      next
        case False
        then have "ts \<noteq> []" using len by auto
        then have "last (ti # ts) = last ts" by simp
        with call_text_last_calls_for [OF sh(1,2) False] sh(4) w' \<open>executor_calls evs2 = []\<close> ex False ce
        show ?thesis by simp
      qed
    next
      case False
      with e2(2) w have "call_text (last (executor_calls evs2)) = Inr w" by auto
      with False ex show ?thesis by simp
    qed
    with tr show ?thesis by blast
  qed
qed

lemma requests_calls_for: "requests (calls_for bs rs) = []"
  by (rule requests_no_gateway) (rule gateway_calls_calls_for)

lemma get_table_info_loop_last_request:
  assumes "get_table_info_loop b mcp tools sys ti ml s = Some y"
  shows "\<exists>evs. trace (snd y) = trace s @ evs
    \<and> (\<forall>v ml'. fst y = Returned (v, ml') \<longrightarrow>
          requests evs \<noteq> []
          \<and> (\<exists>response. last (requests evs) = (ml', Inr response)
                \<and> stopReason response \<noteq> ''tool_use''))"
proof (rule get_table_info_loop.raw_induct
    [where P = "\<lambda>b mcp tools sys ti ml s y. \<exists>evs. trace (snd y) = trace s @ evs
       \<and> (\<forall>v ml'. fst y = Returned (v, ml') \<longrightarrow>
          requests evs \<noteq> []
          \<and> (\<exists>response. last (requests evs) = (ml', Inr response)
                \<and> stopReason response \<noteq> ''tool_use''))",
     OF _ assms], goal_cases)
  case (1 loop b mcp tools sys ti ml s y)
  note IH = 1(1) and eq = 1(2)
  obtain p s1 where it: "get_table_info_iteration b mcp tools sys ti ml s = (p, s1)"
    by (cases "get_table_info_iteration b mcp tools sys ti ml s")
  let ?req = "Request model_id ml sys tools"
  show ?case
  proof (cases p)
    case (Break v)
    with it eq have y: "y = (Returned v, s1)" by simp
    from it Break obtain response where "converse b tools sys ml s = (Inr response, s1)"
      and v: "v = (ti, ml)" and stop: "stopReason response \<noteq> ''tool_use''"
      by (auto simp: get_table_info_iteration_Break)
    then have "trace s1 = trace s @ [Converse ?req (Inr response)]"
      by (auto simp: converse_eq)
    then show ?thesis using y v stop by auto
  next
    case (Fail e)
    with it eq have y: "y = (Raised e, s1)" by simp
    from get_table_info_iteration_Fail_trace [OF it [unfolded Fail]] y show ?thesis
      by auto
  next
    case (Continue v)
    obtain ti' ml' where v: "v = (ti', ml')" by (cases v)
    with it Continue eq have rec: "loop b mcp tools sys ti' ml' s1 = Some y" by simp
    from IH [OF rec] obtain evs2 where
      e2: "trace (snd y) = trace s1 @ evs2"
          "\<forall>v ml'. fst y = Returned (v, ml') \<longrightarrow>
             requests evs2 \<noteq> []
             \<and> (\<exists>response. last (requests evs2) = (ml', Inr response)
                   \<and> stopReason response \<noteq> ''tool_use'')"
      by blast
    from get_table_info_iteration_shape [OF it [unfolded Continue v]] obtain response rs ts where
      sh: "trace s1 = trace s @ Converse ?req (Inr response) # calls_for (content (output_message response)) rs"
      by blast
    let ?evs = "Converse ?req (Inr response) # calls_for (content (output_message response)) rs @ evs2"
    have tr: "trace (snd y) = trace s @ ?evs"
      using e2(1) sh by simp
    have rq: "requests ?evs = (ml, Inr response) # requests evs2"
      by (simp add: requests_append requests_calls_for)
    from e2(2) rq have "\<forall>v ml'. fst y = Returned (v, ml') \<longrightarrow>
          requests ?evs \<noteq> []
          \<and> (\<exists>response. last (requests ?evs) = (ml', Inr response)
                \<and> stopReason response \<noteq> ''tool_use'')"
      by auto
    with tr show ?thesis by blast
  qed
qed

lemma process_query_loop_last_request:
  assumes "process_query_loop lib b mcp tools sys ml s = Some y"
  shows "\<exists>evs. trace (snd y) = trace s @ evs
    \<and> (\<forall>ml'. fst y = Returned ml' \<longrightarrow>
          requests evs \<noteq> []
          \<and> (\<exists>response. last (requests evs) = (ml', Inr response)
                \<and> stopReason response \<noteq> ''tool_use''))"
proof (rule process_query_loop.raw_induct
    [where P = "\<lambda>lib b mcp tools sys ml s y. \<exists>evs. trace (snd y) = trace s @ evs
       \<and> (\<forall>ml'. fst y = Returned ml' \<longrightarrow>
          requests evs \<noteq> []
          \<and> (\<exists>response. last (requests evs) = (ml', Inr response)
                \<and> stopReason response \<noteq> ''tool_use''))",
     OF _ assms], goal_cases)
  case (1 loop lib b mcp tools sys ml s y)
  note IH = 1(1) and eq = 1(2)
  obtain p s1 where it: "process_query_iteration lib b mcp tools sys ml s = (p, s1)"
    by (cases "process_query_iteration lib b mcp tools sys ml s")
  let ?req = "Request model_id ml sys tools"
  show ?case
  proof (cases p)
    case (Break v)
    with it eq have y: "y = (Returned v, s1)" by simp
    from it Break obtain response s0 where
      c: "converse b tools sys ml s = (Inr response, s0)"
         "s1 = show_texts (content (output_message response)) s0"
      and v: "v = ml" and stop: "stopReason response \<noteq> ''tool_use''"
      by (auto simp: process_query_iteration_Break)
    let ?shown = "map (\<lambda>t. UI (ShowText t)) (block_texts (content (output_message response)))"
    from c have "trace s1 = trace s @ Converse ?req (Inr response) # ?shown"
      by (auto simp: converse_eq show_texts_trace)
    moreover have "requests (Converse ?req (Inr response) # ?shown) = [(ml, Inr response)]"
      by (simp add: requests_no_gateway [OF gateway_calls_show_texts])
    ultimately show ?thesis using y v stop by auto
  next
    case (Fail e)
    with it eq have y: "y = (Raised e, s1)" by simp
    from process_query_iteration_Fail_trace [OF it [unfolded Fail]] y show ?thesis
      by auto
  next
    case (Continue ml')
    with it eq have rec: "loop lib b mcp tools sys ml' s1 = Some y" by simp
    from IH [OF rec] obtain evs2 where
      e2: "trace (snd y) = trace s1 @ evs2"
          "\<forall>ml'. fst y = Returned ml' \<longrightarrow>
             requests evs2 \<noteq> []
             \<and> (\<exists>response. last (requests evs2) = (ml', Inr response)
                   \<and> stopReason response \<noteq> ''tool_use'')"
      by blast
    from process_query_iteration_shape [OF it [unfolded Continue]] obtain response evs1 where
      sh: "trace s1 = trace s @ Converse ?req (Inr response) # evs1" "gateway_calls evs1 = []"
      by blast
    let ?evs = "Converse ?req (Inr response) # evs1 @ evs2"
    have tr: "trace (snd y) = trace s @ ?evs"
      using e2(1) sh by simp
    have rq: "requests ?evs = (ml, Inr response) # requests evs2"
      by (simp add: requests_append requests_no_gateway [OF sh(2)])
    from e2(2) rq have "\<forall>ml'. fst y = Returned ml' \<longrightarrow>
          requests ?evs \<noteq> []
          \<and> (\<exists>response. last (requests ?evs) = (ml', Inr response)
                \<and> stopReason response \<noteq> ''tool_use'')"
      by auto
    with tr show ?thesis by blast
  qed
qed

subsection \<open>The example runs\<close>

lemma example_table_pass:
  "get_table_info_iteration (scripted_gateway ask_two_tools) (echo_client empty_rows)
      JNull ''sys'' '''' asked start = (Continue (''[]'', two_answered), after_two_tools)"
  by (simp add: get_table_info_iteration_def converse_def invoke_tool_def scripted_gateway_def
      echo_client_def start_def ask_two_tools_def empty_rows_def asked_def two_answered_def
      after_two_tools_def tool_result_message_def)

lemma example_table_last_pass:
  "get_table_info_iteration (scripted_gateway ask_two_tools) (echo_client empty_rows)
      JNull ''sys'' ''[]'' two_answered after_two_tools
    = (Break (''[]'', two_answered), two_tools_done)"
  by (simp add: get_table_info_iteration_def converse_def scripted_gateway_def
      ask_two_tools_def after_two_tools_def two_tools_done_def)

lemma example_table_run:
  "get_table_info_loop (scripted_gateway ask_two_tools) (echo_client empty_rows)
      JNull ''sys'' '''' asked start = Some (Returned (''[]'', two_answered), two_tools_done)"
  by (subst get_table_info_loop.simps, simp add: example_table_pass,
      subst get_table_info_loop.simps, simp add: example_table_last_pass)

lemma example_query_pass:
  "process_query_iteration example_libs (scripted_gateway ask_two_tools)
      (echo_client empty_rows) JNull ''sys'' asked start = (Continue two_answered, after_two_queries)"
  by (simp add: process_query_iteration_def converse_def invoke_tool_def scripted_gateway_def
      echo_client_def start_def ask_two_tools_def empty_rows_def asked_def two_answered_def
      after_two_queries_def tool_result_message_def select_one_def log_def
      format_sql_result_def example_libs_def example_loads_def)

lemma example_query_last_pass:
  "process_query_iteration example_libs (scripted_gateway ask_two_tools)
      (echo_client empty_rows) JNull ''sys'' two_answered after_two_queries
    = (Break two_answered, two_queries_done)"
  by (simp add: process_query_iteration_def converse_def scripted_gateway_def
      ask_two_tools_def after_two_queries_def two_queries_done_def log_def)

lemma example_query_run:
  "process_query_loop example_libs (scripted_gateway ask_two_tools) (echo_client empty_rows)
      JNull ''sys'' asked start = Some (Returned two_answered, two_queries_done)"
  by (subst process_query_loop.simps, simp add: example_query_pass,
      subst process_query_loop.simps, simp add: example_query_last_pass)

subsection \<open>A cancelled script run\<close>

lemma with_client_cancelled:
  assumes "should_cancel ss"
  shows "\<exists>r s1. with_client mcp (run_body tx lib bedrock_client mcp query ss) ss s = Some (r, s1)
     \<and> gateway_calls (new_events s s1) = [] \<and> executor_calls (new_events s s1) = []
     \<and> (\<forall>w1 tools w2. aenter mcp (world s) = (Inr (), w1) \<and> list_all_tools mcp w1 = (Inr tools, w2)
          \<longrightarrow> r = (Raised RerunException, ss\<lparr>is_running := False\<rparr>)
            \<and> new_events s s1 = [EnterClient, ListTools, UI ShowWarning, ExitClient])"
proof -
  obtain r0 w1 where en: "aenter mcp (world s) = (r0, w1)" by (cases "aenter mcp (world s)")
  show ?thesis
  proof (cases r0)
    case (Inl e)
    with en show ?thesis
      by (auto simp: with_client_def new_events_def gateway_calls_def executor_calls_def)
  next
    case (Inr u)
    obtain r1 w2 where lt: "list_all_tools mcp w1 = (r1, w2)" by (cases "list_all_tools mcp w1")
    show ?thesis
    proof (cases r1)
      case (Inl e)
      with Inr en lt show ?thesis
        by (auto simp: with_client_def run_body_def list_tools_def new_events_def
            gateway_calls_def executor_calls_def)
    next
      case (Inr tools)
      with \<open>r0 = Inr u\<close> en lt assms show ?thesis
        by (auto simp: with_client_def run_body_def list_tools_def cancelled_def log_def
            new_events_def gateway_calls_def executor_calls_def)
    qed
  qed
qed

section \<open>The claims\<close>

text \<open>
  C1, as the specification has it, fails: the two tools that one assistant message asks for
  are answered in two user messages, one per tool, not bundled in one.
\<close>

theorem results_bundled_in_one_message_counterexample:
  "fst (get_table_info_iteration (scripted_gateway ask_two_tools) (echo_client empty_rows)
          JNull ''sys'' '''' asked start)
    = Continue (''[]'',
        [Message User [Text ''orders''],
         Message Assistant [ToolUse ''t1'' ''query'' select_one, ToolUse ''t2'' ''query'' select_one],
         Message User [ToolResult ''t1'' [''[]'']],
         Message User [ToolResult ''t2'' [''[]'']]])
  \<and> fst (get_table_info_iteration (scripted_gateway ask_two_tools) (echo_client empty_rows)
          JNull ''sys'' '''' asked start)
    \<noteq> Continue (''[]'',
        [Message User [Text ''orders''],
         Message Assistant [ToolUse ''t1'' ''query'' select_one, ToolUse ''t2'' ''query'' select_one],
         Message User [ToolResult ''t1'' [''[]''], ToolResult ''t2'' [''[]'']]])
  \<and> fst (process_query_iteration example_libs (scripted_gateway ask_two_tools)
          (echo_client empty_rows) JNull ''sys'' asked start)
    = Continue
        [Message User [Text ''orders''],
         Message Assistant [ToolUse ''t1'' ''query'' select_one, ToolUse ''t2'' ''query'' select_one],
         Message User [ToolResult ''t1'' [''[]'']],
         Message User [ToolResult ''t2'' [''[]'']]]"
  by (simp add: get_table_info_iteration_def process_query_iteration_def converse_def
      invoke_tool_def scripted_gateway_def echo_client_def start_def ask_two_tools_def
      empty_rows_def asked_def tool_result_message_def select_one_def log_def)

text \<open>
  C1, amended. In a pass of either loop in which the gateway asks for tools and all of them
  are served, the gateway call comes first and no other gateway call is made in the pass;
  the executor is called once for every \<open>toolUse\<close> block of the assistant message, in the
  order of the blocks; the transcript grows by the assistant message and then by one user
  message per \<open>toolUse\<close> block, in the same order, each with the single \<open>toolResult\<close> of
  its block and the first text of the result of its call; and the loop goes on from that
  transcript, so that the next gateway call is made only after all of this.
\<close>

theorem tool_results_one_message_each:
  "(get_table_info_iteration bedrock_client mcp tools system_prompt table_info message_list s
      = (Continue (ti1, ml1), s1)
    \<longrightarrow> (\<exists>response rs ts.
          length rs = length (tool_uses (content (output_message response)))
          \<and> map first_text rs = map Inr ts
          \<and> new_events s s1
              = Converse (Request model_id message_list system_prompt tools) (Inr response)
                # calls_for (content (output_message response)) rs
          \<and> ml1 = message_list @ output_message response
                # replies_to (content (output_message response)) ts)
        \<and> get_table_info_loop bedrock_client mcp tools system_prompt table_info message_list s
          = get_table_info_loop bedrock_client mcp tools system_prompt ti1 ml1 s1)
  \<and> (process_query_iteration lib bedrock_client mcp tools system_prompt message_list s
      = (Continue mlq, sq)
    \<longrightarrow> (\<exists>response rs ts evs.
          length rs = length (tool_uses (content (output_message response)))
          \<and> map first_text rs = map Inr ts
          \<and> new_events s sq
              = Converse (Request model_id message_list system_prompt tools) (Inr response) # evs
          \<and> gateway_calls evs = []
          \<and> executor_calls evs = calls_for (content (output_message response)) rs
          \<and> mlq = message_list @ output_message response
                # replies_to (content (output_message response)) ts)
        \<and> process_query_loop lib bedrock_client mcp tools system_prompt message_list s
          = process_query_loop lib bedrock_client mcp tools system_prompt mlq sq)"
proof (intro conjI impI)
  assume a: "get_table_info_iteration bedrock_client mcp tools system_prompt table_info message_list s
      = (Continue (ti1, ml1), s1)"
  from get_table_info_iteration_shape [OF a] obtain response rs ts where
    sh: "length rs = length (tool_uses (content (output_message response)))"
        "map first_text rs = map Inr ts"
        "trace s1 = trace s @ Converse (Request model_id message_list system_prompt tools) (Inr response)
           # calls_for (content (output_message response)) rs"
        "ml1 = message_list @ output_message response # replies_to (content (output_message response)) ts"
    by blast
  from sh(3) have "new_events s s1
      = Converse (Request model_id message_list system_prompt tools) (Inr response)
        # calls_for (content (output_message response)) rs"
    by (rule new_events_append)
  with sh(1,2,4) show "\<exists>response rs ts.
          length rs = length (tool_uses (content (output_message response)))
          \<and> map first_text rs = map Inr ts
          \<and> new_events s s1
              = Converse (Request model_id message_list system_prompt tools) (Inr response)
                # calls_for (content (output_message response)) rs
          \<and> ml1 = message_list @ output_message response
                # replies_to (content (output_message response)) ts"
    by blast
  from a show "get_table_info_loop bedrock_client mcp tools system_prompt table_info message_list s
      = get_table_info_loop bedrock_client mcp tools system_prompt ti1 ml1 s1"
    by (subst get_table_info_loop.simps) simp
next
  assume a: "process_query_iteration lib bedrock_client mcp tools system_prompt message_list s
      = (Continue mlq, sq)"
  from process_query_iteration_shape [OF a] obtain response rs ts evs where
    sh: "length rs = length (tool_uses (content (output_message response)))"
        "map first_text rs = map Inr ts"
        "trace sq = trace s @ Converse (Request model_id message_list system_prompt tools) (Inr response) # evs"
        "gateway_calls evs = []"
        "executor_calls evs = calls_for (content (output_message response)) rs"
        "mlq = message_list @ output_message response # replies_to (content (output_message response)) ts"
    by blast
  from sh(3) have "new_events s sq
      = Converse (Request model_id message_list system_prompt tools) (Inr response) # evs"
    by (rule new_events_append)
  with sh(1,2,4,5,6) show "\<exists>response rs ts evs.
          length rs = length (tool_uses (content (output_message response)))
          \<and> map first_text rs = map Inr ts
          \<and> new_events s sq
              = Converse (Request model_id message_list system_prompt tools) (Inr response) # evs
          \<and> gateway_calls evs = []
          \<and> executor_calls evs = calls_for (content (output_message response)) rs
          \<and> mlq = message_list @ output_message response
                # replies_to (content (output_message response)) ts"
    by blast
  from a show "process_query_loop lib bedrock_client mcp tools system_prompt message_list s
      = process_query_loop lib bedrock_client mcp tools system_prompt mlq sq"
    by (subst process_query_loop.simps) simp
qed

theorem tool_results_one_message_each_witness:
  "get_table_info_iteration (scripted_gateway ask_two_tools) (echo_client empty_rows)
      JNull ''sys'' '''' asked start = (Continue (''[]'', two_answered), after_two_tools)
  \<and> get_table_info_loop (scripted_gateway ask_two_tools) (echo_client empty_rows)
      JNull ''sys'' '''' asked start
    = get_table_info_loop (scripted_gateway ask_two_tools) (echo_client empty_rows)
      JNull ''sys'' ''[]'' two_answered after_two_tools
  \<and> process_query_iteration example_libs (scripted_gateway ask_two_tools) (echo_client empty_rows)
      JNull ''sys'' asked start = (Continue two_answered, after_two_queries)
  \<and> process_query_loop example_libs (scripted_gateway ask_two_tools) (echo_client empty_rows)
      JNull ''sys'' asked start
    = process_query_loop example_libs (scripted_gateway ask_two_tools) (echo_client empty_rows)
      JNull ''sys'' two_answered after_two_queries"
  using example_table_pass example_query_pass
    tool_results_one_message_each [where bedrock_client = "scripted_gateway ask_two_tools"
      and mcp = "echo_client empty_rows" and tools = JNull and system_prompt = "''sys''"
      and table_info = "''''" and message_list = asked and s = start
      and ?ti1.0 = "''[]''" and ?ml1.0 = two_answered and ?s1.0 = after_two_tools
      and lib = example_libs and mlq = two_answered and sq = after_two_queries]
  by simp

text \<open>
  C2. \<open>format_sql_result\<close> does not give the input text back whenever the text is not a
  non-empty JSON array of records: when the text decodes to the empty array, or to a value
  that is no array, the function ends without a \<open>return\<close> and its value is \<open>None\<close>,
  which is not the input text.
\<close>

theorem format_sql_result_falls_through:
  assumes "json_loads lib result_text = Inr data"
    and "data = JArr [] \<or> (\<forall>xs. data \<noteq> JArr xs)"
  shows "format_sql_result lib result_text = NoneValue
    \<and> format_sql_result lib result_text \<noteq> RawText result_text"
  using assms by (cases data) (auto simp: format_sql_result_def)

theorem format_sql_result_falls_through_witness:
  "json_loads example_libs ''[]'' = Inr (JArr [])
    \<and> format_sql_result example_libs ''[]'' = NoneValue
    \<and> format_sql_result example_libs ''[]'' \<noteq> RawText ''[]''
    \<and> format_sql_result example_libs ''no rows'' = RawText ''no rows''
    \<and> format_sql_result example_libs ''[{}]'' = Frame (DataFrame [] [[]])"
  using format_sql_result_falls_through [of example_libs "''[]''" "JArr []"]
  by (simp add: example_libs_def example_loads_def example_frame_def format_sql_result_def)

text \<open>
  C3. Whenever \<open>get_table_info\<close> returns, the value it returns is read off the executor
  calls of the run: without any executor call it is the empty string, and otherwise it is
  the text of the first content element of the result of the last executor call. The texts
  of the assistant messages have no part in it.
\<close>

theorem get_table_info_returns_last_tool_text:
  assumes "get_table_info tx mcp bedrock_client tools query_request s = Some (Returned table_info, s1)"
  shows "last_tool_text (new_events s s1) = Inr table_info"
proof -
  from assms obtain ml1 where
    loop: "get_table_info_loop bedrock_client mcp tools (table_system_prompt tx) ''''
             (table_request tx query_request) s = Some (Returned (table_info, ml1), s1)"
    by (auto simp: get_table_info_def split: option.splits prod.splits outcome.splits)
  from get_table_info_loop_last_text [OF loop] obtain evs where
    "trace s1 = trace s @ evs"
    "if executor_calls evs = [] then table_info = ''''
     else call_text (last (executor_calls evs)) = Inr table_info"
    by auto
  then show ?thesis
    by (simp add: new_events_def last_tool_text_def split: if_splits)
qed

theorem get_table_info_returns_last_tool_text_witness:
  "get_table_info example_texts name_client (scripted_gateway ask_two_names) JNull ''orders'' start
    = Some (Returned ''second'', two_names_done)
   \<and> last_tool_text (new_events start two_names_done) = Inr ''second''"
proof -
  have run: "get_table_info example_texts name_client (scripted_gateway ask_two_names) JNull
      ''orders'' start = Some (Returned ''second'', two_names_done)"
    by (simp add: get_table_info_def get_table_info_loop.simps get_table_info_iteration_def
        converse_def invoke_tool_def scripted_gateway_def name_client_def start_def
        ask_two_names_def two_names_done_def example_texts_def table_request_def
        tool_result_message_def)
  from get_table_info_returns_last_tool_text [OF run] run show ?thesis by simp
qed

text \<open>
  C4, as the specification has it, fails: when the gateway answers at once with a stop
  reason other than \<open>tool_use\<close>, either loop ends with the transcript it started from, and
  the terminal assistant message is not in it.
\<close>

theorem terminal_message_in_transcript_counterexample:
  "get_table_info_loop (scripted_gateway answer_at_once) (echo_client empty_rows)
      JNull ''sys'' '''' asked start
    = Some (Returned ('''', [Message User [Text ''orders'']]), answered_at_once)
  \<and> process_query_loop example_libs (scripted_gateway answer_at_once) (echo_client empty_rows)
      JNull ''sys'' asked start
    = Some (Returned [Message User [Text ''orders'']], log (UI (ShowText ''done'')) answered_at_once)
  \<and> output_message (answer_at_once ! 0) = Message Assistant [Text ''done'']
  \<and> Message Assistant [Text ''done''] \<notin> set [Message User [Text ''orders'']]"
  by (simp add: get_table_info_loop.simps process_query_loop.simps
      get_table_info_iteration_def process_query_iteration_def converse_def
      scripted_gateway_def start_def answer_at_once_def asked_def answered_at_once_def log_def)

text \<open>
  C4, amended. In every pass of either loop the stop reason is examined before the
  transcript is touched. When the stop reason is \<open>tool_use\<close> and the pass is completed, the
  transcript then holds, right after what was sent to the gateway, the assistant message of
  the answer, and after it the tool results. When the loop returns, the transcript is the
  one that was sent with the last gateway call, whose answer had a stop reason other than
  \<open>tool_use\<close>: the terminal assistant message has not been appended.
\<close>

theorem assistant_message_appended_only_for_tools:
  "(get_table_info_iteration bedrock_client mcp tools system_prompt table_info message_list s
      = (Continue (ti1, ml1), s1)
    \<longrightarrow> (\<exists>response rest. hd (requests (new_events s s1)) = (message_list, Inr response)
          \<and> stopReason response = ''tool_use''
          \<and> ml1 = message_list @ output_message response # rest))
  \<and> (get_table_info_loop bedrock_client mcp tools system_prompt table_info message_list s
      = Some (Returned (ti2, ml2), s2)
    \<longrightarrow> (\<exists>response. last (requests (new_events s s2)) = (ml2, Inr response)
          \<and> stopReason response \<noteq> ''tool_use''))
  \<and> (process_query_iteration lib bedrock_client mcp tools system_prompt message_list s
      = (Continue ml3, s3)
    \<longrightarrow> (\<exists>response rest. hd (requests (new_events s s3)) = (message_list, Inr response)
          \<and> stopReason response = ''tool_use''
          \<and> ml3 = message_list @ output_message response # rest))
  \<and> (process_query_loop lib bedrock_client mcp tools system_prompt message_list s
      = Some (Returned ml4, s4)
    \<longrightarrow> (\<exists>response. last (requests (new_events s s4)) = (ml4, Inr response)
          \<and> stopReason response \<noteq> ''tool_use''))"
proof (intro conjI impI)
  assume a: "get_table_info_iteration bedrock_client mcp tools system_prompt table_info message_list s
      = (Continue (ti1, ml1), s1)"
  from get_table_info_iteration_shape [OF a] obtain response rs ts where
    sh: "stopReason response = ''tool_use''"
        "trace s1 = trace s @ Converse (Request model_id message_list system_prompt tools) (Inr response)
           # calls_for (content (output_message response)) rs"
        "ml1 = message_list @ output_message response # replies_to (content (output_message response)) ts"
    by blast
  from new_events_append [OF sh(2)]
  have "hd (requests (new_events s s1)) = (message_list, Inr response)"
    by simp
  with sh(1,3) show "\<exists>response rest. hd (requests (new_events s s1)) = (message_list, Inr response)
          \<and> stopReason response = ''tool_use''
          \<and> ml1 = message_list @ output_message response # rest"
    by blast
next
  assume a: "get_table_info_loop bedrock_client mcp tools system_prompt table_info message_list s
      = Some (Returned (ti2, ml2), s2)"
  from get_table_info_loop_last_request [OF a] obtain evs response where
    "trace s2 = trace s @ evs" "last (requests evs) = (ml2, Inr response)"
    "stopReason response \<noteq> ''tool_use''"
    by auto
  then show "\<exists>response. last (requests (new_events s s2)) = (ml2, Inr response)
          \<and> stopReason response \<noteq> ''tool_use''"
    by (auto simp: new_events_def)
next
  assume a: "process_query_iteration lib bedrock_client mcp tools system_prompt message_list s
      = (Continue ml3, s3)"
  from process_query_iteration_shape [OF a] obtain response rs ts evs where
    sh: "stopReason response = ''tool_use''"
        "trace s3 = trace s @ Converse (Request model_id message_list system_prompt tools) (Inr response) # evs"
        "ml3 = message_list @ output_message response # replies_to (content (output_message response)) ts"
    by blast
  from new_events_append [OF sh(2)]
  have "hd (requests (new_events s s3)) = (message_list, Inr response)"
    by simp
  with sh(1,3) show "\<exists>response rest. hd (requests (new_events s s3)) = (message_list, Inr response)
          \<and> stopReason response = ''tool_use''
          \<and> ml3 = message_list @ output_message response # rest"
    by blast
next
  assume a: "process_query_loop lib bedrock_client mcp tools system_prompt message_list s
      = Some (Returned ml4, s4)"
  from process_query_loop_last_request [OF a] obtain evs response where
    "trace s4 = trace s @ evs" "last (requests evs) = (ml4, Inr response)"
    "stopReason response \<noteq> ''tool_use''"
    by auto
  then show "\<exists>response. last (requests (new_events s s4)) = (ml4, Inr response)
          \<and> stopReason response \<noteq> ''tool_use''"
    by (auto simp: new_events_def)
qed

theorem assistant_message_appended_only_for_tools_witness:
  "get_table_info_iteration (scripted_gateway ask_two_tools) (echo_client empty_rows)
      JNull ''sys'' '''' asked start = (Continue (''[]'', two_answered), after_two_tools)
  \<and> get_table_info_loop (scripted_gateway ask_two_tools) (echo_client empty_rows)
      JNull ''sys'' '''' asked start = Some (Returned (''[]'', two_answered), two_tools_done)
  \<and> process_query_iteration example_libs (scripted_gateway ask_two_tools) (echo_client empty_rows)
      JNull ''sys'' asked start = (Continue two_answered, after_two_queries)
  \<and> process_query_loop example_libs (scripted_gateway ask_two_tools) (echo_client empty_rows)
      JNull ''sys'' asked start = Some (Returned two_answered, two_queries_done)
  \<and> (\<exists>response. last (requests (new_events start two_tools_done)) = (two_answered, Inr response)
        \<and> stopReason response \<noteq> ''tool_use'')
  \<and> (\<exists>response. last (requests (new_events start two_queries_done)) = (two_answered, Inr response)
        \<and> stopReason response \<noteq> ''tool_use'')"
  using example_table_pass example_table_run example_query_pass example_query_run
    assistant_message_appended_only_for_tools
      [where bedrock_client = "scripted_gateway ask_two_tools"
      and mcp = "echo_client empty_rows" and tools = JNull and system_prompt = "''sys''"
      and table_info = "''''" and message_list = asked and s = start
      and ?ti1.0 = "''[]''" and ?ml1.0 = two_answered and ?s1.0 = after_two_tools
      and ?ti2.0 = "''[]''" and ?ml2.0 = two_answered and ?s2.0 = two_tools_done
      and lib = example_libs and ?ml3.0 = two_answered and ?s3.0 = after_two_queries
      and ?ml4.0 = two_answered and ?s4.0 = two_queries_done]
  by simp

text \<open>
  C5. A script run that begins with \<open>should_cancel\<close> set makes no gateway call and no
  executor call, whatever the other flag, the query and the buttons are: it always ends. And
  when it gets as far as the block under \<open>async with\<close> (the run is marked as running, the
  query is not empty, no button was pressed, the client is entered and lists its tools), it
  ends at the first checkpoint: the warning is shown, \<open>is_running\<close> is cleared and the script
  is rerun, before \<open>get_table_info\<close> or \<open>process_query\<close> is called.
\<close>

theorem cancelled_run_makes_no_call:
  "\<exists>r s1. main tx lib bedrock_client mcp running (Some True) query run_clicked cancel_clicked s
        = Some (r, s1)
     \<and> gateway_calls (new_events s s1) = []
     \<and> executor_calls (new_events s s1) = []
     \<and> (running = Some True \<and> query \<noteq> '''' \<and> \<not> cancel_clicked
          \<and> aenter mcp (world s) = (Inr (), w1) \<and> list_all_tools mcp w1 = (Inr tools, w2)
        \<longrightarrow> r = (Raised RerunException, \<lparr>is_running = False, should_cancel = True\<rparr>)
          \<and> new_events s s1 = [EnterClient, ListTools, UI ShowWarning, ExitClient])"
proof -
  let ?ss = "init_session running (Some True)"
  have sc: "should_cancel ?ss" by (simp add: init_session_def)
  show ?thesis
  proof (cases "is_running ?ss \<and> \<not> cancel_clicked \<and> query \<noteq> ''''")
    case True
    then have run: "running = Some True"
      by (cases running) (auto simp: init_session_def)
    from True have m: "main tx lib bedrock_client mcp running (Some True) query run_clicked cancel_clicked s
        = with_client mcp (run_body tx lib bedrock_client mcp query ?ss) ?ss s"
      by (simp add: main_def Let_def)
    from with_client_cancelled [OF sc, of mcp tx lib bedrock_client query s] obtain r s1 where
      w: "with_client mcp (run_body tx lib bedrock_client mcp query ?ss) ?ss s = Some (r, s1)"
         "gateway_calls (new_events s s1) = []" "executor_calls (new_events s s1) = []"
         "\<forall>w1 tools w2. aenter mcp (world s) = (Inr (), w1) \<and> list_all_tools mcp w1 = (Inr tools, w2)
          \<longrightarrow> r = (Raised RerunException, ?ss\<lparr>is_running := False\<rparr>)
            \<and> new_events s s1 = [EnterClient, ListTools, UI ShowWarning, ExitClient]"
      by blast
    have "?ss\<lparr>is_running := False\<rparr> = \<lparr>is_running = False, should_cancel = True\<rparr>"
      by (simp add: init_session_def)
    with w m show ?thesis by auto
  next
    case False
    then have "\<not> (running = Some True \<and> query \<noteq> '''' \<and> \<not> cancel_clicked)"
      by (auto simp: init_session_def)
    with False show ?thesis
      by (auto simp: main_def Let_def new_events_def gateway_calls_def executor_calls_def)
  qed
qed

theorem cancelled_run_makes_no_call_witness:
  "main example_texts example_libs (scripted_gateway ask_two_tools) (echo_client empty_rows)
      (Some True) (Some True) ''orders'' False False start
    = Some ((Raised RerunException, \<lparr>is_running = False, should_cancel = True\<rparr>),
        \<lparr>world = 0, trace = [EnterClient, ListTools, UI ShowWarning, ExitClient]\<rparr>)"
proof -
  from cancelled_run_makes_no_call [where tx = example_texts and lib = example_libs
      and bedrock_client = "scripted_gateway ask_two_tools" and mcp = "echo_client empty_rows"
      and running = "Some True" and query = "''orders''" and run_clicked = False
      and cancel_clicked = False and s = start and ?w1.0 = 0 and tools = "JArr []" and ?w2.0 = 0]
  obtain r s1 where
    "main example_texts example_libs (scripted_gateway ask_two_tools) (echo_client empty_rows)
      (Some True) (Some True) ''orders'' False False start = Some (r, s1)"
    "r = (Raised RerunException, \<lparr>is_running = False, should_cancel = True\<rparr>)"
    "new_events start s1 = [EnterClient, ListTools, UI ShowWarning, ExitClient]"
    by (auto simp: echo_client_def start_def)
  moreover have "main example_texts example_libs (scripted_gateway ask_two_tools) (echo_client empty_rows)
      (Some True) (Some True) ''orders'' False False start
    = Some ((Raised RerunException, \<lparr>is_running = False, should_cancel = True\<rparr>),
        \<lparr>world = 0, trace = [EnterClient, ListTools, UI ShowWarning, ExitClient]\<rparr>)"
    by (simp add: main_def init_session_def with_client_def run_body_def list_tools_def
        cancelled_def log_def echo_client_def start_def)
  ultimately show ?thesis by simp
qed

text \<open>
  C6. Referential integrity of the transcript, in both loops. A completed pass in which
  the gateway asked for tools leaves a transcript that holds, after the assistant message,
  one user message per \<open>toolUse\<close> block of that message, each with a single \<open>toolResult\<close>
  whose \<open>toolUseId\<close> is the id of its block, in the order of the blocks, and nothing else.
  In every run of a loop that ends, the gateway calls form a chain: the first is made on
  the initial transcript, and each later one on the transcript of the call before it
  extended in exactly that way, so that every \<open>toolUse\<close> block has its one answer in
  the transcript before the next gateway call.
\<close>

theorem transcript_referential_integrity:
  "(get_table_info_iteration bedrock_client mcp tools system_prompt table_info message_list s
      = (Continue (ti1, ml1), s1)
    \<longrightarrow> (\<exists>response. requests (new_events s s1) = [(message_list, Inr response)]
          \<and> answers message_list response ml1))
  \<and> (get_table_info_loop bedrock_client mcp tools system_prompt table_info message_list s
      = Some (out2, s2)
    \<longrightarrow> requests (new_events s s2) \<noteq> []
        \<and> fst (hd (requests (new_events s s2))) = message_list
        \<and> integrity (requests (new_events s s2)))
  \<and> (process_query_iteration lib bedrock_client mcp tools system_prompt message_list s
      = (Continue ml3, s3)
    \<longrightarrow> (\<exists>response. requests (new_events s s3) = [(message_list, Inr response)]
          \<and> answers message_list response ml3))
  \<and> (process_query_loop lib bedrock_client mcp tools system_prompt message_list s
      = Some (out4, s4)
    \<longrightarrow> requests (new_events s s4) \<noteq> []
        \<and> fst (hd (requests (new_events s s4))) = message_list
        \<and> integrity (requests (new_events s s4)))"
proof -
  have p1: "get_table_info_iteration bedrock_client mcp tools system_prompt table_info message_list s
      = (Continue (ti1, ml1), s1)
    \<longrightarrow> (\<exists>response. requests (new_events s s1) = [(message_list, Inr response)]
          \<and> answers message_list response ml1)"
  proof (rule impI)
    assume a: "get_table_info_iteration bedrock_client mcp tools system_prompt table_info message_list s
        = (Continue (ti1, ml1), s1)"
    from get_table_info_iteration_shape [OF a] obtain response rs ts where
      sh: "length rs = length (tool_uses (content (output_message response)))"
          "map first_text rs = map Inr ts"
          "trace s1 = trace s @ Converse (Request model_id message_list system_prompt tools) (Inr response)
             # calls_for (content (output_message response)) rs"
          "ml1 = message_list @ output_message response # replies_to (content (output_message response)) ts"
      by blast
    have len: "length ts = length (tool_uses (content (output_message response)))"
      using sh(1) map_eq_length [OF sh(2)] by simp
    have "requests (new_events s s1) = [(message_list, Inr response)]"
      using new_events_append [OF sh(3)] by (simp add: requests_calls_for)
    moreover have "answers message_list response ml1"
      using answers_replies [OF len] sh(4) by simp
    ultimately show "(\<exists>response. requests (new_events s s1) = [(message_list, Inr response)]
            \<and> answers message_list response ml1)"
      by blast
  qed
  have p2: "get_table_info_loop bedrock_client mcp tools system_prompt table_info message_list s
      = Some (out2, s2)
    \<longrightarrow> requests (new_events s s2) \<noteq> []
        \<and> fst (hd (requests (new_events s s2))) = message_list
        \<and> integrity (requests (new_events s s2))"
  proof (rule impI)
    assume a: "get_table_info_loop bedrock_client mcp tools system_prompt table_info message_list s
        = Some (out2, s2)"
    from get_table_info_loop_chained [OF a] obtain evs where
      "trace s2 = trace s @ evs" "chained message_list evs"
      by auto
    then show "requests (new_events s s2) \<noteq> []
          \<and> fst (hd (requests (new_events s s2))) = message_list
          \<and> integrity (requests (new_events s s2))"
      by (simp add: new_events_def chained_def)
  qed
  have p3: "process_query_iteration lib bedrock_client mcp tools system_prompt message_list s
      = (Continue ml3, s3)
    \<longrightarrow> (\<exists>response. requests (new_events s s3) = [(message_list, Inr response)]
          \<and> answers message_list response ml3)"
  proof (rule impI)
    assume a: "process_query_iteration lib bedrock_client mcp tools system_prompt message_list s
        = (Continue ml3, s3)"
    from process_query_iteration_shape [OF a] obtain response rs ts evs where
      sh: "length rs = length (tool_uses (content (output_message response)))"
          "map first_text rs = map Inr ts"
          "trace s3 = trace s @ Converse (Request model_id message_list system_prompt tools) (Inr response) # evs"
          "gateway_calls evs = []"
          "ml3 = message_list @ output_message response # replies_to (content (output_message response)) ts"
      by blast
    have len: "length ts = length (tool_uses (content (output_message response)))"
      using sh(1) map_eq_length [OF sh(2)] by simp
    have "requests (new_events s s3) = [(message_list, Inr response)]"
      using new_events_append [OF sh(3)] by (simp add: requests_no_gateway [OF sh(4)])
    moreover have "answers message_list response ml3"
      using answers_replies [OF len] sh(5) by simp
    ultimately show "(\<exists>response. requests (new_events s s3) = [(message_list, Inr response)]
            \<and> answers message_list response ml3)"
      by blast
  qed
  have p4: "process_query_loop lib bedrock_client mcp tools system_prompt message_list s
      = Some (out4, s4)
    \<longrightarrow> requests (new_events s s4) \<noteq> []
        \<and> fst (hd (requests (new_events s s4))) = message_list
        \<and> integrity (requests (new_events s s4))"
  proof (rule impI)
    assume a: "process_query_loop lib bedrock_client mcp tools system_prompt message_list s
        = Some (out4, s4)"
    from process_query_loop_chained [OF a] obtain evs where
      "trace s4 = trace s @ evs" "chained message_list evs"
      by auto
    then show "requests (new_events s s4) \<noteq> []
          \<and> fst (hd (requests (new_events s s4))) = message_list
          \<and> integrity (requests (new_events s s4))"
      by (simp add: new_events_def chained_def)
  qed
  show ?thesis
    by (intro conjI p1 p2 p3 p4)
qed

theorem transcript_referential_integrity_witness:
  "get_table_info_iteration (scripted_gateway ask_two_tools) (echo_client empty_rows)
      JNull ''sys'' '''' asked start = (Continue (''[]'', two_answered), after_two_tools)
  \<and> get_table_info_loop (scripted_gateway ask_two_tools) (echo_client empty_rows)
      JNull ''sys'' '''' asked start = Some (Returned (''[]'', two_answered), two_tools_done)
  \<and> process_query_iteration example_libs (scripted_gateway ask_two_tools) (echo_client empty_rows)
      JNull ''sys'' asked start = (Continue two_answered, after_two_queries)
  \<and> process_query_loop example_libs (scripted_gateway ask_two_tools) (echo_client empty_rows)
      JNull ''sys'' asked start = Some (Returned two_answered, two_queries_done)
  \<and> integrity (requests (new_events start two_tools_done))
  \<and> integrity (requests (new_events start two_queries_done))
  \<and> answers asked (ask_two_tools ! 0) two_answered"
proof -
  from example_table_pass example_table_run example_query_pass example_query_run
    transcript_referential_integrity
      [where bedrock_client = "scripted_gateway ask_two_tools"
      and mcp = "echo_client empty_rows" and tools = JNull and system_prompt = "''sys''"
      and table_info = "''''" and message_list = asked and s = start
      and ?ti1.0 = "''[]''" and ?ml1.0 = two_answered and ?s1.0 = after_two_tools
      and ?out2.0 = "Returned (''[]'', two_answered)" and ?s2.0 = two_tools_done
      and lib = example_libs and ?ml3.0 = two_answered and ?s3.0 = after_two_queries
      and ?out4.0 = "Returned two_answered" and ?s4.0 = two_queries_done]
  have "(\<exists>response. requests (new_events start after_two_tools) = [(asked, Inr response)]
          \<and> answers asked response two_answered)
    \<and> integrity (requests (new_events start two_tools_done))
    \<and> integrity (requests (new_events start two_queries_done))"
    by simp
  moreover have "requests (new_events start after_two_tools) = [(asked, Inr (ask_two_tools ! 0))]"
    by (simp add: new_events_def start_def after_two_tools_def)
  ultimately show ?thesis
    using example_table_pass example_table_run example_query_pass example_query_run by auto
qed

text \<open>
  C7. Base case. When the first answer of the gateway has a stop reason other than
  \<open>tool_use\<close>, \<open>get_table_info\<close> returns (the empty table information) and
  \<open>process_query\<close>, called with a prompt that is not empty, returns, each after exactly
  one gateway call, the one on the initial transcript, and without any executor call.
\<close>

theorem base_case_one_gateway_call:
  "(bedrock_client (world s)
        (Request model_id (table_request tx query_request) (table_system_prompt tx) tools)
      = (Inr answer, wt)
    \<and> stopReason answer \<noteq> ''tool_use''
    \<longrightarrow> (\<exists>s'. get_table_info tx mcp bedrock_client tools query_request s = Some (Returned '''', s')
          \<and> new_events s s'
              = [Converse (Request model_id (table_request tx query_request)
                    (table_system_prompt tx) tools) (Inr answer)]
          \<and> executor_calls (new_events s s') = []))
  \<and> (prompt \<noteq> ''''
    \<and> bedrock_client (world s) (Request model_id [Message User [Text prompt]] system_prompt tools)
      = (Inr answer_q, wq)
    \<and> stopReason answer_q \<noteq> ''tool_use''
    \<longrightarrow> (\<exists>s'. process_query lib prompt bedrock_client mcp tools system_prompt s
              = Some (Returned (Some [Message User [Text prompt]]), s')
          \<and> gateway_calls (new_events s s')
              = [Converse (Request model_id [Message User [Text prompt]] system_prompt tools)
                   (Inr answer_q)]
          \<and> executor_calls (new_events s s') = []))"
proof (intro conjI impI)
  assume a: "bedrock_client (world s)
        (Request model_id (table_request tx query_request) (table_system_prompt tx) tools)
      = (Inr answer, wt) \<and> stopReason answer \<noteq> ''tool_use''"
  let ?req = "Request model_id (table_request tx query_request) (table_system_prompt tx) tools"
  let ?s' = "\<lparr>world = wt, trace = trace s @ [Converse ?req (Inr answer)]\<rparr>"
  from a have "get_table_info_iteration bedrock_client mcp tools (table_system_prompt tx) ''''
      (table_request tx query_request) s = (Break ('''', table_request tx query_request), ?s')"
    by (auto simp: get_table_info_iteration_Break converse_eq)
  then have "get_table_info tx mcp bedrock_client tools query_request s = Some (Returned '''', ?s')"
    by (simp add: get_table_info_def get_table_info_loop.simps)
  moreover have "new_events s ?s' = [Converse ?req (Inr answer)]"
    by (simp add: new_events_def)
  ultimately show "\<exists>s'. get_table_info tx mcp bedrock_client tools query_request s = Some (Returned '''', s')
          \<and> new_events s s' = [Converse ?req (Inr answer)]
          \<and> executor_calls (new_events s s') = []"
    by (auto simp: executor_calls_def)
next
  assume a: "prompt \<noteq> ''''
    \<and> bedrock_client (world s) (Request model_id [Message User [Text prompt]] system_prompt tools)
      = (Inr answer_q, wq)
    \<and> stopReason answer_q \<noteq> ''tool_use''"
  let ?req = "Request model_id [Message User [Text prompt]] system_prompt tools"
  let ?s1 = "\<lparr>world = wq, trace = trace s @ [Converse ?req (Inr answer_q)]\<rparr>"
  let ?s' = "show_texts (content (output_message answer_q)) ?s1"
  from a have "process_query_iteration lib bedrock_client mcp tools system_prompt
      [Message User [Text prompt]] s = (Break [Message User [Text prompt]], ?s')"
    by (auto simp: process_query_iteration_Break converse_eq)
  with a have "process_query lib prompt bedrock_client mcp tools system_prompt s
      = Some (Returned (Some [Message User [Text prompt]]), ?s')"
    by (simp add: process_query_def process_query_loop.simps)
  moreover have "new_events s ?s' = Converse ?req (Inr answer_q)
      # map (\<lambda>t. UI (ShowText t)) (block_texts (content (output_message answer_q)))"
    by (simp add: new_events_def show_texts_trace)
  ultimately show "\<exists>s'. process_query lib prompt bedrock_client mcp tools system_prompt s
              = Some (Returned (Some [Message User [Text prompt]]), s')
          \<and> gateway_calls (new_events s s') = [Converse ?req (Inr answer_q)]
          \<and> executor_calls (new_events s s') = []"
    using gateway_calls_show_texts executor_calls_show_texts
    by (auto simp: gateway_calls_def executor_calls_def)
qed

theorem base_case_one_gateway_call_witness:
  "(\<exists>s'. get_table_info example_texts (echo_client []) (scripted_gateway answer_at_once) JNull ''orders'' start
        = Some (Returned '''', s')
      \<and> new_events start s'
          = [Converse (Request model_id (table_request example_texts ''orders'')
                (table_system_prompt example_texts) JNull) (Inr (hd answer_at_once))]
      \<and> executor_calls (new_events start s') = [])
  \<and> (\<exists>s'. process_query example_libs ''orders'' (scripted_gateway answer_at_once) (echo_client []) JNull ''sys'' start
        = Some (Returned (Some [Message User [Text ''orders'']]), s')
      \<and> gateway_calls (new_events start s')
          = [Converse (Request model_id [Message User [Text ''orders'']] ''sys'' JNull)
               (Inr (hd answer_at_once))]
      \<and> executor_calls (new_events start s') = [])"
  using base_case_one_gateway_call [where bedrock_client = "scripted_gateway answer_at_once"
      and s = start and tx = example_texts and query_request = "''orders''" and tools = JNull
      and answer = "hd answer_at_once" and wt = 1 and mcp = "echo_client []"
      and prompt = "''orders''" and system_prompt = "''sys''" and answer_q = "hd answer_at_once"
      and wq = 1 and lib = example_libs]
  by (simp add: scripted_gateway_def start_def answer_at_once_def)

text \<open>
  C8. A failure of the executor ends the loop with that failure, in both loops. Where the
  gateway has asked for tools, the tool blocks before one of them have been served, and
  \<open>call_tool\<close> fails for that one, the loop returns the exception of the executor; the
  failed call is the last thing the run did, so that it is made once, the blocks after it
  are not served and no further gateway call follows.
\<close>

theorem executor_failure_ends_the_loop:
  assumes "converse bedrock_client tools system_prompt message_list s = (Inr response, s1)"
    and "stopReason response = ''tool_use''"
    and "content (output_message response) = pre @ ToolUse tool_id tool_name tool_input # post"
  shows "(get_table_info_tools mcp pre table_info (message_list @ [output_message response]) s1
        = (Returned v0, s0)
      \<and> call_tool mcp (world s0) tool_name tool_input = (Inl e, w)
      \<longrightarrow> get_table_info_loop bedrock_client mcp tools system_prompt table_info message_list s
          = Some (Raised e,
              \<lparr>world = w, trace = trace s0 @ [CallTool tool_name tool_input (Inl e)]\<rparr>))
    \<and> (process_query_tools lib mcp pre (message_list @ [output_message response])
          (show_texts (content (output_message response)) s1) = (Returned mlq, sq)
      \<and> subscript tool_input ''sql'' = Inr sql
      \<and> call_tool mcp (world sq) tool_name tool_input = (Inl eq, wq)
      \<longrightarrow> process_query_loop lib bedrock_client mcp tools system_prompt message_list s
          = Some (Raised eq,
              \<lparr>world = wq,
                 trace = trace sq @ [UI (ShowQuery sql), CallTool tool_name tool_input (Inl eq)]\<rparr>))"
proof (intro conjI impI)
  assume a: "get_table_info_tools mcp pre table_info (message_list @ [output_message response]) s1
        = (Returned v0, s0)
      \<and> call_tool mcp (world s0) tool_name tool_input = (Inl e, w)"
  let ?s' = "\<lparr>world = w, trace = trace s0 @ [CallTool tool_name tool_input (Inl e)]\<rparr>"
  obtain ti0 ml0 where v0: "v0 = (ti0, ml0)" by (cases v0)
  from a have "invoke_tool mcp tool_name tool_input s0 = (Inl e, ?s')"
    by (simp add: invoke_tool_eq)
  then have "get_table_info_tools mcp (content (output_message response)) table_info
      (message_list @ [output_message response]) s1 = (Raised e, ?s')"
    using a v0 assms(3) by (simp add: get_table_info_tools_append)
  with assms(1,2) have "get_table_info_iteration bedrock_client mcp tools system_prompt
      table_info message_list s = (Fail e, ?s')"
    by (auto simp: get_table_info_iteration_Fail)
  then show "get_table_info_loop bedrock_client mcp tools system_prompt table_info message_list s
      = Some (Raised e, ?s')"
    by (simp add: get_table_info_loop.simps)
next
  assume a: "process_query_tools lib mcp pre (message_list @ [output_message response])
          (show_texts (content (output_message response)) s1) = (Returned mlq, sq)
      \<and> subscript tool_input ''sql'' = Inr sql
      \<and> call_tool mcp (world sq) tool_name tool_input = (Inl eq, wq)"
  let ?s' = "\<lparr>world = wq,
      trace = trace sq @ [UI (ShowQuery sql), CallTool tool_name tool_input (Inl eq)]\<rparr>"
  from a have "invoke_tool mcp tool_name tool_input (log (UI (ShowQuery sql)) sq) = (Inl eq, ?s')"
    by (simp add: invoke_tool_eq log_def)
  then have "process_query_tools lib mcp (content (output_message response))
      (message_list @ [output_message response])
      (show_texts (content (output_message response)) s1) = (Raised eq, ?s')"
    using a assms(3) by (simp add: process_query_tools_append)
  with assms(1,2) have "process_query_iteration lib bedrock_client mcp tools system_prompt
      message_list s = (Fail eq, ?s')"
    by (auto simp: process_query_iteration_Fail)
  then show "process_query_loop lib bedrock_client mcp tools system_prompt message_list s
      = Some (Raised eq, ?s')"
    by (simp add: process_query_loop.simps)
qed

theorem executor_failure_ends_the_loop_witness:
  "get_table_info_loop (scripted_gateway ask_one_tool) (failing_client lost) JNull ''sys'' ''''
      [Message User [Text ''orders'']] start
    = Some (Raised lost,
        \<lparr>world = 1,
           trace = [Converse (Request model_id [Message User [Text ''orders'']] ''sys'' JNull)
                      (Inr (hd ask_one_tool)),
                    CallTool ''query'' select_one (Inl lost)]\<rparr>)
  \<and> process_query_loop example_libs (scripted_gateway ask_one_tool) (failing_client lost) JNull
      ''sys'' [Message User [Text ''orders'']] start
    = Some (Raised lost,
        \<lparr>world = 1,
           trace = [Converse (Request model_id [Message User [Text ''orders'']] ''sys'' JNull)
                      (Inr (hd ask_one_tool)),
                    UI (ShowText ''looking''), UI (ShowQuery (JStr ''select 1'')),
                    CallTool ''query'' select_one (Inl lost)]\<rparr>)"
  using executor_failure_ends_the_loop [where bedrock_client = "scripted_gateway ask_one_tool"
      and tools = JNull and system_prompt = "''sys''"
      and message_list = "[Message User [Text ''orders'']]" and s = start
      and response = "hd ask_one_tool"
      and ?s1.0 = "\<lparr>world = 1, trace = [Converse (Request model_id
            [Message User [Text ''orders'']] ''sys'' JNull) (Inr (hd ask_one_tool))]\<rparr>"
      and pre = "[Text ''looking'']" and tool_id = "''t1''" and tool_name = "''query''"
      and tool_input = select_one and post = "[]" and mcp = "failing_client lost"
      and table_info = "''''"
      and ?v0.0 = "('''', [Message User [Text ''orders''], output_message (hd ask_one_tool)])"
      and ?s0.0 = "\<lparr>world = 1, trace = [Converse (Request model_id
            [Message User [Text ''orders'']] ''sys'' JNull) (Inr (hd ask_one_tool))]\<rparr>"
      and e = lost and w = 1 and lib = example_libs
      and mlq = "[Message User [Text ''orders''], output_message (hd ask_one_tool)]"
      and sq = "\<lparr>world = 1, trace = [Converse (Request model_id
            [Message User [Text ''orders'']] ''sys'' JNull) (Inr (hd ask_one_tool)),
            UI (ShowText ''looking'')]\<rparr>"
      and sql = "JStr ''select 1''" and eq = lost and wq = 1]
  by (simp add: converse_def scripted_gateway_def failing_client_def start_def ask_one_tool_def
      select_one_def log_def)

text \<open>
  C9. A call of \<open>process_query\<close> with the empty prompt returns at once: its value is
  \<open>None\<close>, no transcript has been built, and the world and the trace are as they were, so
  that no gateway call and no executor call has been made.
\<close>

theorem process_query_empty_prompt:
  "process_query lib '''' bedrock_client mcp tools system_prompt s = Some (Returned None, s)"
  by (simp add: process_query_def)

text \<open>
  C10. Of the content of an executor result only the first element is read, in both loops.
  Where the tool blocks before it have been served and the executor answers the call for
  the next one with the content \<open>c\<close>: an empty \<open>c\<close> ends the \<open>for\<close> loop with IndexError;
  a \<open>c\<close> that begins with a text content makes the loop append one user message, whose only
  block is the \<open>toolResult\<close> for the id of the request with that one text, whatever follows
  in \<open>c\<close>, and go on with the blocks that remain; a first element without a text ends the
  loop with AttributeError.
\<close>

theorem first_content_element_only:
  "(get_table_info_tools mcp pre table_info message_list s = (Returned (ti0, ml0), s0)
    \<and> call_tool mcp (world s0) tool_name tool_input = (Inr (CallToolResult c), w)
    \<longrightarrow> get_table_info_tools mcp (pre @ ToolUse tool_id tool_name tool_input # post)
          table_info message_list s
        = (let s1 = \<lparr>world = w,
                       trace = trace s0 @ [CallTool tool_name tool_input (Inr (CallToolResult c))]\<rparr>
           in case c of
                [] \<Rightarrow> (Raised IndexError, s1)
              | TextContent t # others \<Rightarrow>
                  get_table_info_tools mcp post t
                    (ml0 @ [Message User [ToolResult tool_id [t]]]) s1
              | _ # others \<Rightarrow> (Raised AttributeError, s1)))
  \<and> (process_query_tools lib mcp pre message_list s = (Returned mlq, sq)
    \<and> subscript tool_input ''sql'' = Inr sql
    \<and> call_tool mcp (world sq) tool_name tool_input = (Inr (CallToolResult cq), wq)
    \<longrightarrow> process_query_tools lib mcp (pre @ ToolUse tool_id tool_name tool_input # post)
          message_list s
        = (let s1 = \<lparr>world = wq,
                       trace = trace sq @ [UI (ShowQuery sql),
                         CallTool tool_name tool_input (Inr (CallToolResult cq))]\<rparr>
           in case cq of
                [] \<Rightarrow> (Raised IndexError, s1)
              | TextContent t # others \<Rightarrow>
                  process_query_tools lib mcp post
                    (mlq @ [Message User [ToolResult tool_id [t]]])
                    (log (UI (ShowResult (format_sql_result lib t))) s1)
              | _ # others \<Rightarrow> (Raised AttributeError, s1)))"
proof (intro conjI impI)
  assume a: "get_table_info_tools mcp pre table_info message_list s = (Returned (ti0, ml0), s0)
    \<and> call_tool mcp (world s0) tool_name tool_input = (Inr (CallToolResult c), w)"
  let ?s1 = "\<lparr>world = w, trace = trace s0 @ [CallTool tool_name tool_input (Inr (CallToolResult c))]\<rparr>"
  from a have inv: "invoke_tool mcp tool_name tool_input s0 = (Inr (CallToolResult c), ?s1)"
    by (simp add: invoke_tool_eq)
  have "get_table_info_tools mcp (pre @ ToolUse tool_id tool_name tool_input # post)
          table_info message_list s
      = get_table_info_tools mcp (ToolUse tool_id tool_name tool_input # post) ti0 ml0 s0"
    using a by (simp add: get_table_info_tools_append)
  also have "\<dots> = (case c of
                [] \<Rightarrow> (Raised IndexError, ?s1)
              | TextContent t # others \<Rightarrow>
                  get_table_info_tools mcp post t
                    (ml0 @ [Message User [ToolResult tool_id [t]]]) ?s1
              | _ # others \<Rightarrow> (Raised AttributeError, ?s1))"
    using inv by (simp add: tool_result_message_def split: list.splits mcp_content.splits)
  finally show "get_table_info_tools mcp (pre @ ToolUse tool_id tool_name tool_input # post)
          table_info message_list s
        = (let s1 = ?s1
           in case c of
                [] \<Rightarrow> (Raised IndexError, s1)
              | TextContent t # others \<Rightarrow>
                  get_table_info_tools mcp post t
                    (ml0 @ [Message User [ToolResult tool_id [t]]]) s1
              | _ # others \<Rightarrow> (Raised AttributeError, s1))"
    by (simp add: Let_def)
next
  assume a: "process_query_tools lib mcp pre message_list s = (Returned mlq, sq)
    \<and> subscript tool_input ''sql'' = Inr sql
    \<and> call_tool mcp (world sq) tool_name tool_input = (Inr (CallToolResult cq), wq)"
  let ?s1 = "\<lparr>world = wq, trace = trace sq @ [UI (ShowQuery sql),
                         CallTool tool_name tool_input (Inr (CallToolResult cq))]\<rparr>"
  from a have inv: "invoke_tool mcp tool_name tool_input (log (UI (ShowQuery sql)) sq)
      = (Inr (CallToolResult cq), ?s1)"
    by (simp add: invoke_tool_eq log_def)
  have "process_query_tools lib mcp (pre @ ToolUse tool_id tool_name tool_input # post)
          message_list s
      = process_query_tools lib mcp (ToolUse tool_id tool_name tool_input # post) mlq sq"
    using a by (simp add: process_query_tools_append)
  also have "\<dots> = (case cq of
                [] \<Rightarrow> (Raised IndexError, ?s1)
              | TextContent t # others \<Rightarrow>
                  process_query_tools lib mcp post
                    (mlq @ [Message User [ToolResult tool_id [t]]])
                    (log (UI (ShowResult (format_sql_result lib t))) ?s1)
              | _ # others \<Rightarrow> (Raised AttributeError, ?s1))"
    using inv a by (simp add: tool_result_message_def split: list.splits mcp_content.splits)
  finally show "process_query_tools lib mcp (pre @ ToolUse tool_id tool_name tool_input # post)
          message_list s
        = (let s1 = ?s1
           in case cq of
                [] \<Rightarrow> (Raised IndexError, s1)
              | TextContent t # others \<Rightarrow>
                  process_query_tools lib mcp post
                    (mlq @ [Message User [ToolResult tool_id [t]]])
                    (log (UI (ShowResult (format_sql_result lib t))) s1)
              | _ # others \<Rightarrow> (Raised AttributeError, s1))"
    by (simp add: Let_def)
qed

theorem first_content_element_only_witness:
  "get_table_info_tools (echo_client [TextContent ''[]'', TextContent ''more''])
      [ToolUse ''t1'' ''query'' select_one] '''' [] start
    = (Returned (''[]'', [Message User [ToolResult ''t1'' [''[]'']]]),
       \<lparr>world = 0, trace = [CallTool ''query'' select_one
          (Inr (CallToolResult [TextContent ''[]'', TextContent ''more'']))]\<rparr>)
  \<and> process_query_tools example_libs (echo_client [TextContent ''[]'', TextContent ''more''])
      [ToolUse ''t1'' ''query'' select_one] [] start
    = (Returned [Message User [ToolResult ''t1'' [''[]'']]],
       \<lparr>world = 0, trace = [UI (ShowQuery (JStr ''select 1'')),
          CallTool ''query'' select_one
            (Inr (CallToolResult [TextContent ''[]'', TextContent ''more''])),
          UI (ShowResult NoneValue)]\<rparr>)
  \<and> get_table_info_tools (echo_client []) [ToolUse ''t1'' ''query'' select_one] '''' [] start
    = (Raised IndexError,
       \<lparr>world = 0, trace = [CallTool ''query'' select_one (Inr (CallToolResult []))]\<rparr>)"
  using first_content_element_only [where mcp = "echo_client []"
      and pre = "[]" and table_info = "''''" and message_list = "[]" and s = start
      and ?ti0.0 = "''''" and ?ml0.0 = "[]" and ?s0.0 = start and tool_name = "''query''"
      and tool_input = select_one and c = "[]" and w = 0
      and tool_id = "''t1''" and post = "[]" and lib = example_libs and mlq = "[]" and sq = start
      and sql = "JStr ''select 1''" and cq = "[]" and wq = 0]
    first_content_element_only [where mcp = "echo_client [TextContent ''[]'', TextContent ''more'']"
      and pre = "[]" and table_info = "''''" and message_list = "[]" and s = start
      and ?ti0.0 = "''''" and ?ml0.0 = "[]" and ?s0.0 = start and tool_name = "''query''"
      and tool_input = select_one and c = "[TextContent ''[]'', TextContent ''more'']" and w = 0
      and tool_id = "''t1''" and post = "[]" and lib = example_libs and mlq = "[]" and sq = start
      and sql = "JStr ''select 1''" and cq = "[TextContent ''[]'', TextContent ''more'']" and wq = 0]
  by (simp add: echo_client_def start_def select_one_def log_def format_sql_result_def
      example_libs_def example_loads_def)

end
